theory Spec2Isabelle
  imports Main "HOL-Library.Multiset"
begin

section \<open>Values\<close>

text \<open>
  IEEE doubles (Python's \<open>float\<close>, SQLite's \<open>REAL\<close>) are an abstract type: what the
  interpreter and the storage engine compute on them belongs to the environment below.
\<close>

typedecl float64

instantiation float64 :: equal
begin

definition equal_float64 :: "float64 \<Rightarrow> float64 \<Rightarrow> bool" where
  "equal_float64 x y \<longleftrightarrow> x = y"

instance by standard (simp add: equal_float64_def)

end

text \<open>
  A parsed JSON value, as \<open>request.json\<close> returns it: \<open>None\<close>, \<open>bool\<close>, \<open>int\<close> (unbounded),
  \<open>float\<close>, \<open>str\<close>, \<open>list\<close> or \<open>dict\<close> (the items of the dictionary, keys distinct).
\<close>

datatype json =
    JNull
  | JBool bool
  | JInt int
  | JFloat float64
  | JStr string
  | JArr "json list"
  | JObj "(string \<times> json) list"

text \<open>
  A value in a SQLite column and, read back through \<open>sqlite3\<close>, the Python value of the
  same kind: \<open>NULL\<close>/\<open>None\<close>, \<open>INTEGER\<close>/\<open>int\<close>, \<open>REAL\<close>/\<open>float\<close>, \<open>TEXT\<close>/\<open>str\<close>.
\<close>

datatype sqlval = SNull | SInt int | SReal float64 | SText string

text \<open>The Python exceptions the routes can raise and do not catch.\<close>

datatype exc = AttributeError | TypeError | OverflowError | ProgrammingError

text \<open>
  What the code calls and the repository does not define: the SHA-256 hex digest of
  \<open>hashlib\<close>, Python's float arithmetic (the sum of two floats, and the sum and the
  product of a float and an integer), and the parts of SQLite's type conversion and
  expression evaluation that work on doubles or parse numbers from text.
\<close>

record env =
  hash_password :: "string \<Rightarrow> string"
  float_is_zero :: "float64 \<Rightarrow> bool"
  float_is_nan :: "float64 \<Rightarrow> bool"
  float_add :: "float64 \<Rightarrow> float64 \<Rightarrow> float64"
  float_add_int :: "float64 \<Rightarrow> int \<Rightarrow> float64"
  float_mul_int :: "float64 \<Rightarrow> int \<Rightarrow> float64"
  float_str :: "float64 \<Rightarrow> string"
  real_as_integer :: "float64 \<Rightarrow> int option"
  real_as_text :: "float64 \<Rightarrow> string"
  text_as_numeric :: "string \<Rightarrow> sqlval"
  order_by_inexact :: "sqlval \<Rightarrow> sqlval \<Rightarrow> sqlval \<Rightarrow> sqlval"
  order_ge_inexact :: "sqlval \<Rightarrow> sqlval \<Rightarrow> bool"

section \<open>Data model of the leaderboard service (app.py)\<close>

text \<open>
  The service keeps five SQLite tables and a Flask session. Tables are lists of rows in
  insertion order, the session is a dictionary with the three keys the code ever writes.
  The columns \<open>created_at\<close> and \<open>timestamp\<close> and the surrogate \<open>id\<close> columns of the stat
  and audit tables are never read by the code and are left out. The weekly and the
  monthly stat table have the same shape (the period column is \<open>week_start\<close> resp.
  \<open>month_year\<close>) and share one row type. The three stat columns hold whatever the update
  routes bound; \<open>member_id\<close> of a stat row is always the integer id of the member the
  route has looked up.
\<close>

record admin_user =
  au_id :: int
  au_username :: string
  au_password_hash :: string
  au_role :: string

record member =
  m_id :: int
  m_name :: string
  m_avatar :: "string option"

record stat_row =
  member_id :: int
  sessions_attended :: sqlval
  assessments_submitted :: sqlval
  bonus_points :: sqlval
  period_key :: string

record audit_entry =
  admin_username :: string
  action :: string
  details :: string

record store =
  admin_users :: "admin_user list"
  admin_users_seq :: int
  members :: "member list"
  members_seq :: int
  weekly_leaderboard :: "stat_row list"
  monthly_leaderboard :: "stat_row list"
  audit_log :: "audit_entry list"

record session =
  user_id :: "int option"
  username :: "string option"
  role :: "string option"

section \<open>Python and SQLite on values\<close>

text \<open>\<open>data.get(k)\<close> and \<open>data.get(k, d)\<close> of a Python dictionary.\<close>

definition dict_get :: "(string \<times> json) list \<Rightarrow> string \<Rightarrow> json" where
  "dict_get kvs k = (case map_of kvs k of None \<Rightarrow> JNull | Some v \<Rightarrow> v)"

definition dict_get_default :: "(string \<times> json) list \<Rightarrow> string \<Rightarrow> json \<Rightarrow> json" where
  "dict_get_default kvs k d = (case map_of kvs k of None \<Rightarrow> d | Some v \<Rightarrow> v)"

text \<open>Python's truth value, the negation of \<open>not v\<close>.\<close>

fun truthy :: "env \<Rightarrow> json \<Rightarrow> bool" where
  "truthy E JNull = False"
| "truthy E (JBool b) = b"
| "truthy E (JInt i) = (i \<noteq> 0)"
| "truthy E (JFloat f) = (\<not> float_is_zero E f)"
| "truthy E (JStr s) = (s \<noteq> [])"
| "truthy E (JArr xs) = (xs \<noteq> [])"
| "truthy E (JObj kvs) = (kvs \<noteq> [])"

text \<open>The range of a SQLite \<open>INTEGER\<close>: signed 64 bits.\<close>

definition in64 :: "int \<Rightarrow> bool" where
  "in64 i \<longleftrightarrow> - 9223372036854775808 \<le> i \<and> i \<le> 9223372036854775807"

text \<open>
  Binding a Python value to a \<open>?\<close> of a statement: \<open>sqlite3\<close> raises \<open>OverflowError\<close> for
  an integer outside 64 bits and \<open>ProgrammingError\<close> for a list or a dictionary; a
  \<open>bool\<close> is an \<open>int\<close>; SQLite stores a NaN as \<open>NULL\<close>.
\<close>

fun bind :: "env \<Rightarrow> json \<Rightarrow> exc + sqlval" where
  "bind E JNull = Inr SNull"
| "bind E (JBool b) = Inr (SInt (if b then 1 else 0))"
| "bind E (JInt i) = (if in64 i then Inr (SInt i) else Inl OverflowError)"
| "bind E (JFloat f) = Inr (if float_is_nan E f then SNull else SReal f)"
| "bind E (JStr s) = Inr (SText s)"
| "bind E (JArr xs) = Inl ProgrammingError"
| "bind E (JObj kvs) = Inl ProgrammingError"

text \<open>Python's \<open>str\<close> of an integer.\<close>

fun str_nat :: "nat \<Rightarrow> string" where
  "str_nat n = (if n < 10 then [char_of (48 + n)] else str_nat (n div 10) @ [char_of (48 + n mod 10)])"

declare str_nat.simps [simp del]

definition str_int :: "int \<Rightarrow> string" where
  "str_int i = (if i < 0 then CHR ''-'' # str_nat (nat (- i)) else str_nat (nat i))"

text \<open>\<open>str\<close> of a session value that may be \<open>None\<close>.\<close>

fun str_opt :: "string option \<Rightarrow> string" where
  "str_opt None = ''None''"
| "str_opt (Some s) = s"

text \<open>
  \<open>str\<close> of a JSON scalar inside an f-string; \<open>None\<close> for a list or a dictionary, which
  the one caller has failed to bind before it formats.
\<close>

fun py_str :: "env \<Rightarrow> json \<Rightarrow> string option" where
  "py_str E JNull = Some ''None''"
| "py_str E (JBool b) = Some (if b then ''True'' else ''False'')"
| "py_str E (JInt i) = Some (str_int i)"
| "py_str E (JFloat f) = Some (float_str E f)"
| "py_str E (JStr s) = Some s"
| "py_str E (JArr xs) = None"
| "py_str E (JObj kvs) = None"

text \<open>
  Column affinity. Under \<open>INTEGER\<close> affinity a \<open>REAL\<close> that is an integer of 64 bits
  becomes that integer, and a \<open>TEXT\<close> that is a well-formed number becomes the number; a
  text without a digit is no number and stays \<open>TEXT\<close>. Under \<open>TEXT\<close> affinity a number
  becomes its text.
\<close>

definition has_digit :: "string \<Rightarrow> bool" where
  "has_digit s = list_ex (\<lambda>c. 48 \<le> (of_char c :: nat) \<and> (of_char c :: nat) \<le> 57) s"

fun integer_affinity :: "env \<Rightarrow> sqlval \<Rightarrow> sqlval" where
  "integer_affinity E SNull = SNull"
| "integer_affinity E (SInt i) = SInt i"
| "integer_affinity E (SReal f) = (case real_as_integer E f of Some i \<Rightarrow> SInt i | None \<Rightarrow> SReal f)"
| "integer_affinity E (SText s) = (if has_digit s then text_as_numeric E s else SText s)"

fun text_affinity :: "env \<Rightarrow> sqlval \<Rightarrow> string option" where
  "text_affinity E SNull = None"
| "text_affinity E (SInt i) = Some (str_int i)"
| "text_affinity E (SReal f) = Some (real_as_text E f)"
| "text_affinity E (SText s) = Some s"

text \<open>SQL's \<open>COALESCE(v, d)\<close>.\<close>

fun coalesce :: "sqlval \<Rightarrow> sqlval \<Rightarrow> sqlval" where
  "coalesce SNull d = d"
| "coalesce v d = v"

text \<open>
  Python's \<open>x * n\<close> for an integer literal \<open>n\<close> and \<open>x + y\<close>, on the values a row can
  hold: integer and float arithmetic, repetition and concatenation of strings, and
  \<open>TypeError\<close> otherwise.
\<close>

fun py_mul :: "env \<Rightarrow> sqlval \<Rightarrow> int \<Rightarrow> exc + sqlval" where
  "py_mul E SNull n = Inl TypeError"
| "py_mul E (SInt i) n = Inr (SInt (i * n))"
| "py_mul E (SReal f) n = Inr (SReal (float_mul_int E f n))"
| "py_mul E (SText s) n = Inr (SText (concat (replicate (nat n) s)))"

fun py_add :: "env \<Rightarrow> sqlval \<Rightarrow> sqlval \<Rightarrow> exc + sqlval" where
  "py_add E (SInt i) (SInt j) = Inr (SInt (i + j))"
| "py_add E (SInt i) (SReal g) = Inr (SReal (float_add_int E g i))"
| "py_add E (SReal f) (SInt j) = Inr (SReal (float_add_int E f j))"
| "py_add E (SReal f) (SReal g) = Inr (SReal (float_add E f g))"
| "py_add E (SText s) (SText t) = Inr (SText (s @ t))"
| "py_add E x y = Inl TypeError"

section \<open>Scoring\<close>

definition calculate_points :: "int \<Rightarrow> int \<Rightarrow> int \<Rightarrow> int" where
  "calculate_points sessions assessments bonus = (sessions * 10) + (assessments * 20) + bonus"

text \<open>
  The same function body on the values the leaderboard loop passes to it, which are
  whatever the three columns of the row hold.
\<close>

definition calculate_points_dyn :: "env \<Rightarrow> sqlval \<Rightarrow> sqlval \<Rightarrow> sqlval \<Rightarrow> exc + sqlval" where
  "calculate_points_dyn E sessions assessments bonus =
     (case py_mul E sessions 10 of
        Inl e \<Rightarrow> Inl e
      | Inr x \<Rightarrow>
          (case py_mul E assessments 20 of
             Inl e \<Rightarrow> Inl e
           | Inr y \<Rightarrow>
               (case py_add E x y of
                  Inl e \<Rightarrow> Inl e
                | Inr z \<Rightarrow> py_add E z bonus)))"

section \<open>Responses\<close>

text \<open>
  One row of a leaderboard query, and the dictionary the listing makes of it by adding
  the key \<open>totalPoints\<close>.
\<close>

record lb_row =
  e_id :: int
  e_name :: string
  e_avatar :: "string option"
  sessionsAttended :: sqlval
  assessmentsSubmitted :: sqlval
  bonusPoints :: sqlval

record lb_entry = lb_row +
  totalPoints :: sqlval

text \<open>
  The JSON bodies the routes return. \<open>ErrorBody e c\<close> is
  \<open>{success: False, error: e}\<close> with the optional key \<open>code\<close>; the next five have
  \<open>success: True\<close>. \<open>InternalServerError\<close> is the page Flask answers with when the
  route raises an exception. A response is Flask's pair of body and status; \<open>jsonify\<close>
  alone answers with status 200.
\<close>

datatype body =
    ErrorBody string "string option"
  | MessageBody string
  | UserBody string string
  | StatusBody "(string option \<times> string option) option"
  | MemberBody int string json
  | LeaderboardBody string string "lb_entry list"
  | InternalServerError

type_synonym response = "body \<times> nat"

definition ok :: "body \<Rightarrow> response" where
  "ok b = (b, 200)"

definition server_error :: response where
  "server_error = (InternalServerError, 500)"

text \<open>The key \<open>data\<close> of a leaderboard response.\<close>

fun body_data :: "body \<Rightarrow> lb_entry list" where
  "body_data (LeaderboardBody ty period es) = es"
| "body_data b = []"

section \<open>Helpers\<close>

text \<open>\<open>name.replace(' ', '+')\<close>.\<close>

definition replace_space_plus :: "string \<Rightarrow> string" where
  "replace_space_plus name = map (\<lambda>c. if c = CHR '' '' then CHR ''+'' else c) name"

definition default_avatar :: "string \<Rightarrow> string" where
  "default_avatar name =
     ''https://ui-avatars.com/api/?name='' @ replace_space_plus name @
     ''&background=ff642c&color=fff&size=200''"

text \<open>
  The rowid of an \<open>INTEGER PRIMARY KEY AUTOINCREMENT\<close> column: one more than the largest
  rowid the table holds or has ever held (the table's entry in \<open>sqlite_sequence\<close>).
  SQLite refuses an insert once the largest 64-bit rowid of a table has been used; the
  model leaves the rowids unbounded.
\<close>

definition next_rowid :: "int \<Rightarrow> int list \<Rightarrow> int" where
  "next_rowid seq ids = fold max ids seq + 1"

section \<open>Bootstrap, audit log and the authentication gate\<close>

definition empty_db :: store where
  "empty_db = \<lparr>admin_users = [], admin_users_seq = 0, members = [], members_seq = 0,
     weekly_leaderboard = [], monthly_leaderboard = [], audit_log = []\<rparr>"

definition empty_session :: session where
  "empty_session = \<lparr>user_id = None, username = None, role = None\<rparr>"

definition init_db :: "env \<Rightarrow> store \<Rightarrow> store" where
  "init_db E st =
     (case find (\<lambda>u. au_username u = ''admin'') (admin_users st) of
        Some existing_admin \<Rightarrow> st
      | None \<Rightarrow>
          (let new_id = next_rowid (admin_users_seq st) (map au_id (admin_users st)) in
           st\<lparr>admin_users := admin_users st @
                 [\<lparr>au_id = new_id, au_username = ''admin'',
                   au_password_hash = hash_password E ''synapse2024'', au_role = ''admin''\<rparr>],
               admin_users_seq := new_id\<rparr>))"

definition log_action :: "string \<Rightarrow> string \<Rightarrow> session \<Rightarrow> store \<Rightarrow> store" where
  "log_action act det sess st =
     st\<lparr>audit_log := audit_log st @
       [\<lparr>admin_username = (case username sess of None \<Rightarrow> ''system'' | Some u \<Rightarrow> u),
         action = act, details = det\<rparr>]\<rparr>"

text \<open>
  A route body takes the session and the store and returns the response, the session
  and the store. An exception that leaves the route is answered with status 500; the
  routes raise before they write, so session and store are then as they were.
  \<open>require_auth\<close> is the decorator.
\<close>

type_synonym handler = "session \<Rightarrow> store \<Rightarrow> response \<times> session \<times> store"

definition require_auth :: "handler \<Rightarrow> handler" where
  "require_auth f sess st =
     (if user_id sess = None
      then ((ErrorBody ''Authentication required'' (Some ''AUTH_REQUIRED''), 401), sess, st)
      else f sess st)"

section \<open>Authentication routes\<close>

text \<open>
  \<open>data\<close> is \<open>request.json\<close>; \<open>data.get\<close> raises \<open>AttributeError\<close> unless it is a
  dictionary, and so does \<open>password.encode()\<close> unless the password is a string. The
  \<open>SELECT\<close> compares the bound username under the \<open>TEXT\<close> affinity of the column.
\<close>

definition login :: "env \<Rightarrow> json \<Rightarrow> handler" where
  "login E data sess st =
     (case data of
        JObj kvs \<Rightarrow>
          (let uname = dict_get kvs ''username'';
               password = dict_get kvs ''password''
           in if \<not> truthy E uname \<or> \<not> truthy E password
              then ((ErrorBody ''Username and password required'' None, 400), sess, st)
              else
                (case password of
                   JStr pw \<Rightarrow>
                     (case (bind E uname, py_str E uname) of
                        (Inr v, Some shown) \<Rightarrow>
                          (case find (\<lambda>u. Some (au_username u) = text_affinity E v \<and>
                                           au_password_hash u = hash_password E pw)
                                  (admin_users st) of
                             Some user \<Rightarrow>
                               (let sess' = sess\<lparr>user_id := Some (au_id user),
                                                 username := Some (au_username user),
                                                 role := Some (au_role user)\<rparr>;
                                    st' = log_action ''LOGIN''
                                            (''User '' @ shown @ '' logged in'') sess' st
                                in (ok (UserBody (au_username user) (au_role user)), sess', st'))
                           | None \<Rightarrow> ((ErrorBody ''Invalid credentials'' None, 401), sess, st))
                      | _ \<Rightarrow> (server_error, sess, st))
                 | _ \<Rightarrow> (server_error, sess, st)))
      | _ \<Rightarrow> (server_error, sess, st))"

definition logout_body :: handler where
  "logout_body sess st =
     (let uname = username sess;
          sess' = empty_session;
          st' = log_action ''LOGOUT'' (''User '' @ str_opt uname @ '' logged out'') sess' st
      in (ok (MessageBody ''Logged out''), sess', st'))"

definition logout :: handler where
  "logout = require_auth logout_body"

definition auth_status :: handler where
  "auth_status sess st =
     (if user_id sess \<noteq> None
      then (ok (StatusBody (Some (username sess, role sess))), sess, st)
      else (ok (StatusBody None), sess, st))"

section \<open>Public routes\<close>

text \<open>
  The \<open>SELECT\<close> of both leaderboard routes: every member, left-joined with the stat rows
  of the member for the period \<open>key\<close>, the three stat columns under \<open>COALESCE(_, 0)\<close>,
  ordered by the SQL score expression, largest first.
\<close>

definition join_row :: "member \<Rightarrow> stat_row option \<Rightarrow> lb_row" where
  "join_row m w =
     \<lparr>e_id = m_id m, e_name = m_name m, e_avatar = m_avatar m,
      sessionsAttended =
        coalesce (case w of None \<Rightarrow> SNull | Some r \<Rightarrow> sessions_attended r) (SInt 0),
      assessmentsSubmitted =
        coalesce (case w of None \<Rightarrow> SNull | Some r \<Rightarrow> assessments_submitted r) (SInt 0),
      bonusPoints =
        coalesce (case w of None \<Rightarrow> SNull | Some r \<Rightarrow> bonus_points r) (SInt 0)\<rparr>"

definition left_join :: "string \<Rightarrow> member list \<Rightarrow> stat_row list \<Rightarrow> lb_row list" where
  "left_join key ms ws =
     concat (map (\<lambda>m.
       case filter (\<lambda>w. member_id w = m_id m \<and> period_key w = key) ws of
         [] \<Rightarrow> [join_row m None]
       | rs \<Rightarrow> map (\<lambda>w. join_row m (Some w)) rs) ms)"

text \<open>
  The \<open>ORDER BY\<close> expression \<open>s * 10 + a * 20 + b\<close>. SQLite computes it in 64-bit
  integers as long as the three operands are integers and no product or sum leaves
  the 64-bit range; in every other case (an overflow, which continues in doubles, a
  \<open>REAL\<close> or a \<open>TEXT\<close> operand) the value is the environment's. Two integer keys compare
  as integers, any other pair as the environment says.
\<close>

definition int64_score :: "sqlval \<Rightarrow> sqlval \<Rightarrow> sqlval \<Rightarrow> int option" where
  "int64_score s a b =
     (case (s, a, b) of
        (SInt x, SInt y, SInt z) \<Rightarrow>
          if in64 (x * 10) \<and> in64 (y * 20) \<and> in64 (x * 10 + y * 20) \<and>
             in64 (x * 10 + y * 20 + z)
          then Some (x * 10 + y * 20 + z)
          else None
      | _ \<Rightarrow> None)"

definition order_expr :: "env \<Rightarrow> lb_row \<Rightarrow> sqlval" where
  "order_expr E r =
     (case int64_score (sessionsAttended r) (assessmentsSubmitted r) (bonusPoints r) of
        Some n \<Rightarrow> SInt n
      | None \<Rightarrow>
          order_by_inexact E (sessionsAttended r) (assessmentsSubmitted r) (bonusPoints r))"

definition key_ge :: "env \<Rightarrow> sqlval \<Rightarrow> sqlval \<Rightarrow> bool" where
  "key_ge E x y = (case (x, y) of (SInt i, SInt j) \<Rightarrow> j \<le> i | _ \<Rightarrow> order_ge_inexact E x y)"

text \<open>
  \<open>ORDER BY ... DESC\<close> as an insertion sort. SQLite leaves the order of rows with equal
  keys open; the sort keeps them in join order.
\<close>

fun insert_desc :: "env \<Rightarrow> lb_row \<Rightarrow> lb_row list \<Rightarrow> lb_row list" where
  "insert_desc E x [] = [x]"
| "insert_desc E x (y # ys) =
     (if key_ge E (order_expr E x) (order_expr E y) then x # y # ys
      else y # insert_desc E x ys)"

definition order_by_desc :: "env \<Rightarrow> lb_row list \<Rightarrow> lb_row list" where
  "order_by_desc E rows = foldr (insert_desc E) rows []"

definition select_leaderboard :: "env \<Rightarrow> string \<Rightarrow> member list \<Rightarrow> stat_row list \<Rightarrow> lb_row list" where
  "select_leaderboard E key ms ws = order_by_desc E (left_join key ms ws)"

text \<open>
  The loop over the rows: \<open>dict(row)\<close> with \<open>totalPoints\<close> added. An exception of
  \<open>calculate_points\<close> leaves the loop and the route.
\<close>

definition add_total :: "lb_row \<Rightarrow> sqlval \<Rightarrow> lb_entry" where
  "add_total row points =
     \<lparr>e_id = e_id row, e_name = e_name row, e_avatar = e_avatar row,
      sessionsAttended = sessionsAttended row,
      assessmentsSubmitted = assessmentsSubmitted row,
      bonusPoints = bonusPoints row,
      totalPoints = points\<rparr>"

fun build_data :: "env \<Rightarrow> lb_row list \<Rightarrow> exc + lb_entry list" where
  "build_data E [] = Inr []"
| "build_data E (row # rows) =
     (case calculate_points_dyn E (sessionsAttended row) (assessmentsSubmitted row)
             (bonusPoints row) of
        Inl e \<Rightarrow> Inl e
      | Inr points \<Rightarrow>
          (case build_data E rows of
             Inl e \<Rightarrow> Inl e
           | Inr data \<Rightarrow> Inr (add_total row points # data)))"

definition leaderboard_data ::
  "env \<Rightarrow> string \<Rightarrow> member list \<Rightarrow> stat_row list \<Rightarrow> exc + lb_entry list" where
  "leaderboard_data E key ms ws = build_data E (select_leaderboard E key ms ws)"

text \<open>
  \<open>get_week_start()\<close> and \<open>get_month_year()\<close> read the wall clock; the routes that call
  them take their result as the argument \<open>week_start\<close> resp. \<open>month_year\<close>.
\<close>

definition get_weekly_leaderboard :: "env \<Rightarrow> string \<Rightarrow> handler" where
  "get_weekly_leaderboard E week_start sess st =
     (case leaderboard_data E week_start (members st) (weekly_leaderboard st) of
        Inl e \<Rightarrow> (server_error, sess, st)
      | Inr data \<Rightarrow> (ok (LeaderboardBody ''weekly'' week_start data), sess, st))"

definition get_monthly_leaderboard :: "env \<Rightarrow> string \<Rightarrow> handler" where
  "get_monthly_leaderboard E month_year sess st =
     (case leaderboard_data E month_year (members st) (monthly_leaderboard st) of
        Inl e \<Rightarrow> (server_error, sess, st)
      | Inr data \<Rightarrow> (ok (LeaderboardBody ''monthly'' month_year data), sess, st))"

section \<open>Admin routes\<close>

text \<open>
  The default of \<open>data.get('avatar', ...)\<close> is evaluated before the call, so
  \<open>name.replace\<close> raises \<open>AttributeError\<close> for a name that is not a string. The \<open>INSERT\<close>
  binds the avatar, which can raise, and then raises \<open>sqlite3.IntegrityError\<close> when the
  name is already in the table (\<open>name TEXT NOT NULL UNIQUE\<close>); only that exception is
  caught and answered with 400.
\<close>

definition add_member_body :: "env \<Rightarrow> json \<Rightarrow> handler" where
  "add_member_body E data sess st =
     (case data of
        JObj kvs \<Rightarrow>
          if \<not> truthy E (dict_get kvs ''name'')
          then ((ErrorBody ''Name is required'' None, 400), sess, st)
          else
            (case dict_get kvs ''name'' of
               JStr name \<Rightarrow>
                 (let avatar = dict_get_default kvs ''avatar'' (JStr (default_avatar name)) in
                  case bind E avatar of
                    Inl e \<Rightarrow> (server_error, sess, st)
                  | Inr av \<Rightarrow>
                      if name \<in> set (map m_name (members st))
                      then ((ErrorBody ''Member already exists'' None, 400), sess, st)
                      else
                        (let new_id = next_rowid (members_seq st) (map m_id (members st));
                             st1 = st\<lparr>members := members st @
                                         [\<lparr>m_id = new_id, m_name = name,
                                           m_avatar = text_affinity E av\<rparr>],
                                      members_seq := new_id\<rparr>;
                             st2 = log_action ''ADD_MEMBER''
                                     (''Added member: '' @ name @ '' (ID: '' @
                                      str_int new_id @ '')'')
                                     sess st1
                         in (ok (MemberBody new_id name avatar), sess, st2)))
             | _ \<Rightarrow> (server_error, sess, st))
      | _ \<Rightarrow> (server_error, sess, st))"

definition add_member :: "env \<Rightarrow> json \<Rightarrow> handler" where
  "add_member E data = require_auth (add_member_body E data)"

text \<open>
  \<open>SELECT name FROM members WHERE id = ?\<close>: the bound value is compared under the
  \<open>INTEGER\<close> affinity of the column, and only an integer equals an id.
\<close>

definition select_member :: "env \<Rightarrow> sqlval \<Rightarrow> member list \<Rightarrow> member option" where
  "select_member E v ms =
     (case integer_affinity E v of
        SInt i \<Rightarrow> find (\<lambda>m. m_id m = i) ms
      | _ \<Rightarrow> None)"

text \<open>
  \<open>INSERT ... ON CONFLICT(member_id, period) DO UPDATE SET\<close> the three stat columns to
  the excluded values.
\<close>

definition upsert_stat ::
  "int \<Rightarrow> sqlval \<Rightarrow> sqlval \<Rightarrow> sqlval \<Rightarrow> string \<Rightarrow> stat_row list \<Rightarrow> stat_row list" where
  "upsert_stat mid s a b key rows =
     (if list_ex (\<lambda>r. member_id r = mid \<and> period_key r = key) rows
      then map (\<lambda>r. if member_id r = mid \<and> period_key r = key
                     then r\<lparr>sessions_attended := s, assessments_submitted := a,
                            bonus_points := b\<rparr>
                     else r) rows
      else rows @ [\<lparr>member_id = mid, sessions_attended = s, assessments_submitted = a,
                     bonus_points = b, period_key = key\<rparr>])"

definition update_weekly_leaderboard_body :: "env \<Rightarrow> json \<Rightarrow> string \<Rightarrow> handler" where
  "update_weekly_leaderboard_body E data week_start sess st =
     (case data of
        JObj kvs \<Rightarrow>
          (let mid = dict_get kvs ''member_id'';
               sessions = dict_get_default kvs ''sessions_attended'' (JInt 0);
               assessments = dict_get_default kvs ''assessments_submitted'' (JInt 0);
               bonus = dict_get_default kvs ''bonus_points'' (JInt 0)
           in if \<not> truthy E mid
              then ((ErrorBody ''member_id is required'' None, 400), sess, st)
              else
                (case bind E mid of
                   Inl e \<Rightarrow> (server_error, sess, st)
                 | Inr mv \<Rightarrow>
                     (case select_member E mv (members st) of
                        None \<Rightarrow> ((ErrorBody ''Member not found'' None, 404), sess, st)
                      | Some m \<Rightarrow>
                          (case (bind E sessions, bind E assessments, bind E bonus) of
                             (Inr s, Inr a, Inr b) \<Rightarrow>
                               (let st1 = st\<lparr>weekly_leaderboard :=
                                                upsert_stat (m_id m) (integer_affinity E s)
                                                  (integer_affinity E a) (integer_affinity E b)
                                                  week_start (weekly_leaderboard st)\<rparr>;
                                    st2 = log_action ''UPDATE_WEEKLY''
                                            (''Updated weekly stats for '' @ m_name m) sess st1
                                in (ok (MessageBody ''Weekly leaderboard updated''), sess, st2))
                           | _ \<Rightarrow> (server_error, sess, st)))))
      | _ \<Rightarrow> (server_error, sess, st))"

definition update_weekly_leaderboard :: "env \<Rightarrow> json \<Rightarrow> string \<Rightarrow> handler" where
  "update_weekly_leaderboard E data week_start =
     require_auth (update_weekly_leaderboard_body E data week_start)"

definition update_monthly_leaderboard_body :: "env \<Rightarrow> json \<Rightarrow> string \<Rightarrow> handler" where
  "update_monthly_leaderboard_body E data month_year sess st =
     (case data of
        JObj kvs \<Rightarrow>
          (let mid = dict_get kvs ''member_id'';
               sessions = dict_get_default kvs ''sessions_attended'' (JInt 0);
               assessments = dict_get_default kvs ''assessments_submitted'' (JInt 0);
               bonus = dict_get_default kvs ''bonus_points'' (JInt 0)
           in if \<not> truthy E mid
              then ((ErrorBody ''member_id is required'' None, 400), sess, st)
              else
                (case bind E mid of
                   Inl e \<Rightarrow> (server_error, sess, st)
                 | Inr mv \<Rightarrow>
                     (case select_member E mv (members st) of
                        None \<Rightarrow> ((ErrorBody ''Member not found'' None, 404), sess, st)
                      | Some m \<Rightarrow>
                          (case (bind E sessions, bind E assessments, bind E bonus) of
                             (Inr s, Inr a, Inr b) \<Rightarrow>
                               (let st1 = st\<lparr>monthly_leaderboard :=
                                                upsert_stat (m_id m) (integer_affinity E s)
                                                  (integer_affinity E a) (integer_affinity E b)
                                                  month_year (monthly_leaderboard st)\<rparr>;
                                    st2 = log_action ''UPDATE_MONTHLY''
                                            (''Updated monthly stats for '' @ m_name m) sess st1
                                in (ok (MessageBody ''Monthly leaderboard updated''), sess, st2))
                           | _ \<Rightarrow> (server_error, sess, st)))))
      | _ \<Rightarrow> (server_error, sess, st))"

definition update_monthly_leaderboard :: "env \<Rightarrow> json \<Rightarrow> string \<Rightarrow> handler" where
  "update_monthly_leaderboard E data month_year =
     require_auth (update_monthly_leaderboard_body E data month_year)"

text \<open>
  The delete routes take the id from the URL (\<open><int:member_id>\<close>, a non-negative
  integer of any size) and bind it in their first statement.
\<close>

definition delete_member_body :: "nat \<Rightarrow> handler" where
  "delete_member_body mid sess st =
     (if \<not> in64 (int mid) then (server_error, sess, st)
      else
        (case find (\<lambda>m. m_id m = int mid) (members st) of
           None \<Rightarrow> ((ErrorBody ''Member not found'' None, 404), sess, st)
         | Some m \<Rightarrow>
             (let st1 = st\<lparr>weekly_leaderboard :=
                              filter (\<lambda>r. member_id r \<noteq> int mid) (weekly_leaderboard st),
                            monthly_leaderboard :=
                              filter (\<lambda>r. member_id r \<noteq> int mid) (monthly_leaderboard st),
                            members := filter (\<lambda>x. m_id x \<noteq> int mid) (members st)\<rparr>;
                  st2 = log_action ''DELETE_MEMBER''
                          (''Deleted member: '' @ m_name m @ '' (ID: '' @ str_int (int mid) @ '')'')
                          sess st1
              in (ok (MessageBody (''Member '' @ m_name m @ '' deleted'')), sess, st2))))"

definition delete_member :: "nat \<Rightarrow> handler" where
  "delete_member mid = require_auth (delete_member_body mid)"

definition delete_weekly_entry_body :: "nat \<Rightarrow> string \<Rightarrow> handler" where
  "delete_weekly_entry_body mid week_start sess st =
     (if \<not> in64 (int mid) then (server_error, sess, st)
      else if \<not> list_ex (\<lambda>r. member_id r = int mid \<and> period_key r = week_start)
                  (weekly_leaderboard st)
      then ((ErrorBody ''Entry not found'' None, 404), sess, st)
      else
        (let st1 = st\<lparr>weekly_leaderboard :=
                         filter (\<lambda>r. \<not> (member_id r = int mid \<and> period_key r = week_start))
                           (weekly_leaderboard st)\<rparr>;
             st2 = log_action ''DELETE_WEEKLY''
                     (''Deleted weekly stats for member ID '' @ str_int (int mid)) sess st1
         in (ok (MessageBody ''Weekly leaderboard entry deleted''), sess, st2)))"

definition delete_weekly_entry :: "nat \<Rightarrow> string \<Rightarrow> handler" where
  "delete_weekly_entry mid week_start = require_auth (delete_weekly_entry_body mid week_start)"

definition delete_monthly_entry_body :: "nat \<Rightarrow> string \<Rightarrow> handler" where
  "delete_monthly_entry_body mid month_year sess st =
     (if \<not> in64 (int mid) then (server_error, sess, st)
      else if \<not> list_ex (\<lambda>r. member_id r = int mid \<and> period_key r = month_year)
                  (monthly_leaderboard st)
      then ((ErrorBody ''Entry not found'' None, 404), sess, st)
      else
        (let st1 = st\<lparr>monthly_leaderboard :=
                         filter (\<lambda>r. \<not> (member_id r = int mid \<and> period_key r = month_year))
                           (monthly_leaderboard st)\<rparr>;
             st2 = log_action ''DELETE_MONTHLY''
                     (''Deleted monthly stats for member ID '' @ str_int (int mid)) sess st1
         in (ok (MessageBody ''Monthly leaderboard entry deleted''), sess, st2)))"

definition delete_monthly_entry :: "nat \<Rightarrow> string \<Rightarrow> handler" where
  "delete_monthly_entry mid month_year =
     require_auth (delete_monthly_entry_body mid month_year)"

section \<open>Requests and runs of the service\<close>

text \<open>
  One request to one of the routes above, and the service handling a sequence of
  requests of one client, starting after \<open>init_db\<close> on an empty database with no
  session.
\<close>

datatype request =
    Login json
  | Logout
  | AuthStatus
  | GetWeekly string
  | GetMonthly string
  | AddMember json
  | UpdateWeekly json string
  | UpdateMonthly json string
  | DeleteMember nat
  | DeleteWeekly nat string
  | DeleteMonthly nat string

fun handle :: "env \<Rightarrow> request \<Rightarrow> handler" where
  "handle E (Login data) = login E data"
| "handle E Logout = logout"
| "handle E AuthStatus = auth_status"
| "handle E (GetWeekly week_start) = get_weekly_leaderboard E week_start"
| "handle E (GetMonthly month_year) = get_monthly_leaderboard E month_year"
| "handle E (AddMember data) = add_member E data"
| "handle E (UpdateWeekly data week_start) = update_weekly_leaderboard E data week_start"
| "handle E (UpdateMonthly data month_year) = update_monthly_leaderboard E data month_year"
| "handle E (DeleteMember mid) = delete_member mid"
| "handle E (DeleteWeekly mid week_start) = delete_weekly_entry mid week_start"
| "handle E (DeleteMonthly mid month_year) = delete_monthly_entry mid month_year"

fun run :: "env \<Rightarrow> request list \<Rightarrow> session \<times> store \<Rightarrow> session \<times> store" where
  "run E [] c = c"
| "run E (rq # rqs) c = run E rqs (snd (handle E rq (fst c) (snd c)))"

definition boot :: "env \<Rightarrow> session \<times> store" where
  "boot E = (empty_session, init_db E empty_db)"

section \<open>Constraints of the schema\<close>

text \<open>
  The \<open>PRIMARY KEY\<close> and \<open>UNIQUE\<close> constraints of \<open>init_db\<close>'s \<open>CREATE TABLE\<close>
  statements: admin ids and usernames, member ids and names, and the pair
  (member_id, period) of each stat table.
\<close>

definition stat_key :: "stat_row \<Rightarrow> int \<times> string" where
  "stat_key r = (member_id r, period_key r)"

definition schema_ok :: "store \<Rightarrow> bool" where
  "schema_ok st \<longleftrightarrow>
     distinct (map au_id (admin_users st)) \<and>
     distinct (map au_username (admin_users st)) \<and>
     distinct (map m_id (members st)) \<and>
     distinct (map m_name (members st)) \<and>
     distinct (map stat_key (weekly_leaderboard st)) \<and>
     distinct (map stat_key (monthly_leaderboard st))"

text \<open>The score of a leaderboard row when SQLite computes it in 64-bit integers.\<close>

definition row_score :: "lb_row \<Rightarrow> int option" where
  "row_score r = int64_score (sessionsAttended r) (assessmentsSubmitted r) (bonusPoints r)"

text \<open>
  A stat row whose three columns are \<open>NULL\<close> or integers with a score that SQLite
  computes in 64-bit integers.
\<close>

definition exact_score :: "stat_row \<Rightarrow> bool" where
  "exact_score r \<longleftrightarrow>
     int64_score (coalesce (sessions_attended r) (SInt 0))
       (coalesce (assessments_submitted r) (SInt 0))
       (coalesce (bonus_points r) (SInt 0)) \<noteq> None"

section \<open>URL encoding as the specification describes it\<close>






section \<open>Sample data\<close>

text \<open>
  An environment, a session and a store on which the routes are evaluated below. The
  sample requests and rows hold no doubles and no numeric text, so the evaluations do
  not consult the float functions and the text conversion of the environment, and its
  order of inexact keys only where a text has been stored, for a result (the route
  raises) that does not depend on that order. The digest stands for SHA-256.
\<close>

definition sample_env :: env where
  "sample_env =
     \<lparr>hash_password = (\<lambda>p. ''sha256:'' @ p),
      float_is_zero = (\<lambda>f. False),
      float_is_nan = (\<lambda>f. False),
      float_add = (\<lambda>f g. f),
      float_add_int = (\<lambda>f i. f),
      float_mul_int = (\<lambda>f i. f),
      float_str = (\<lambda>f. ''0.0''),
      real_as_integer = (\<lambda>f. None),
      real_as_text = (\<lambda>f. ''0.0''),
      text_as_numeric = (\<lambda>s. SText s),
      order_by_inexact = (\<lambda>s a b. SNull),
      order_ge_inexact = (\<lambda>x y. True)\<rparr>"

definition admin_session :: session where
  "admin_session = \<lparr>user_id = Some 1, username = Some ''admin'', role = Some ''admin''\<rparr>"

text \<open>
  Three members; in the week of 2024-01-01 Alice and Bob have a stat row (one of Alice's
  columns is \<open>NULL\<close>), Carol has a row for an earlier week only.
\<close>

definition sample_store :: store where
  "sample_store =
     \<lparr>admin_users = [\<lparr>au_id = 1, au_username = ''admin'',
                      au_password_hash = ''sha256:synapse2024'', au_role = ''admin''\<rparr>],
      admin_users_seq = 1,
      members = [\<lparr>m_id = 1, m_name = ''Alice'', m_avatar = None\<rparr>,
                 \<lparr>m_id = 2, m_name = ''Bob'', m_avatar = Some ''b.png''\<rparr>,
                 \<lparr>m_id = 3, m_name = ''Carol'', m_avatar = None\<rparr>],
      members_seq = 3,
      weekly_leaderboard =
        [\<lparr>member_id = 1, sessions_attended = SInt 1, assessments_submitted = SNull,
          bonus_points = SInt 2, period_key = ''2024-01-01''\<rparr>,
         \<lparr>member_id = 2, sessions_attended = SInt 3, assessments_submitted = SInt 1,
          bonus_points = SInt 5, period_key = ''2024-01-01''\<rparr>,
         \<lparr>member_id = 3, sessions_attended = SInt 9, assessments_submitted = SInt 9,
          bonus_points = SInt 9, period_key = ''2023-12-25''\<rparr>],
      monthly_leaderboard =
        [\<lparr>member_id = 3, sessions_attended = SInt 2, assessments_submitted = SInt 0,
          bonus_points = SInt 0, period_key = ''2024-01''\<rparr>],
      audit_log = []\<rparr>"

section \<open>Properties\<close>

text \<open>
  C1. The scoring function returns exactly \<open>s * 10 + a * 20 + b\<close>; it is a total function
  with an integer result (no error value), and it is monotonically non-decreasing in
  each of its three arguments. The equalities and inequalities hold for all integers,
  in particular for the non-negative ones.
\<close>

theorem calculate_points_formula_monotone:
  "calculate_points s a b = s * 10 + a * 20 + b \<and>
   (s \<le> s' \<longrightarrow> calculate_points s a b \<le> calculate_points s' a b) \<and>
   (a \<le> a' \<longrightarrow> calculate_points s a b \<le> calculate_points s a' b) \<and>
   (b \<le> b' \<longrightarrow> calculate_points s a b \<le> calculate_points s a b')"
  by (simp add: calculate_points_def)

theorem calculate_points_formula_monotone_witness:
  "calculate_points 3 1 5 = 55 \<and>
   calculate_points 3 1 5 \<le> calculate_points 4 1 5 \<and>
   calculate_points 3 1 5 \<le> calculate_points 3 2 5 \<and>
   calculate_points 3 1 5 \<le> calculate_points 3 1 6"
  using calculate_points_formula_monotone [of 3 1 5 4 2 6] by simp

text \<open>On integers the loop's call computes \<open>calculate_points\<close>.\<close>

lemma calculate_points_dyn_int:
  "calculate_points_dyn E (SInt s) (SInt a) (SInt b) = Inr (SInt (calculate_points s a b))"
  by (simp add: calculate_points_dyn_def calculate_points_def)

subsection \<open>Leaderboard listings\<close>

lemma filter_key_le1:
  "distinct (map stat_key ws) \<Longrightarrow>
   filter (\<lambda>w. member_id w = i \<and> period_key w = k) ws = [] \<or>
   (\<exists>r. filter (\<lambda>w. member_id w = i \<and> period_key w = k) ws = [r])"
proof (induction ws)
  case Nil then show ?case by simp
next
  case (Cons w ws)
  show ?case
  proof (cases "member_id w = i \<and> period_key w = k")
    case True
    with Cons.prems have "\<forall>x\<in>set ws. \<not> (member_id x = i \<and> period_key x = k)"
      by (auto simp: stat_key_def image_iff)
    then have "filter (\<lambda>w. member_id w = i \<and> period_key w = k) ws = []"
      by (simp add: filter_empty_conv)
    with True show ?thesis by simp
  next
    case False
    with Cons show ?thesis by auto
  qed
qed

lemma left_join_ids:
  "distinct (map stat_key ws) \<Longrightarrow> map e_id (left_join k ms ws) = map m_id ms"
proof (induction ms)
  case Nil then show ?case by (simp add: left_join_def)
next
  case (Cons m ms)
  from filter_key_le1 [OF Cons.prems, of "m_id m" k]
  show ?case using Cons
    by (auto simp: left_join_def join_row_def)
qed

lemma set_join_member:
  fixes m :: member
  shows "r \<in> set (case filter (\<lambda>w. member_id w = m_id m \<and> period_key w = k) ws of
                  [] \<Rightarrow> [join_row m None] | x # xs \<Rightarrow> map (\<lambda>w. join_row m (Some w)) (x # xs)) \<longleftrightarrow>
      (filter (\<lambda>w. member_id w = m_id m \<and> period_key w = k) ws = [] \<and> r = join_row m None) \<or>
      (\<exists>w\<in>set ws. member_id w = m_id m \<and> period_key w = k \<and> r = join_row m (Some w))"
proof (cases "filter (\<lambda>w. member_id w = m_id m \<and> period_key w = k) ws")
  case Nil
  then have "\<forall>w\<in>set ws. \<not> (member_id w = m_id m \<and> period_key w = k)"
    by (simp add: filter_empty_conv)
  with Nil show ?thesis by auto
next
  case (Cons x xs)
  have "set (filter (\<lambda>w. member_id w = m_id m \<and> period_key w = k) ws) =
        {w \<in> set ws. member_id w = m_id m \<and> period_key w = k}" by simp
  with Cons have "set (x # xs) = {w \<in> set ws. member_id w = m_id m \<and> period_key w = k}"
    by simp
  with Cons show ?thesis by (simp only: list.case set_map) (auto simp: image_iff)
qed

lemma set_left_join:
  "r \<in> set (left_join k ms ws) \<longleftrightarrow>
   (\<exists>m\<in>set ms.
      (filter (\<lambda>w. member_id w = m_id m \<and> period_key w = k) ws = [] \<and> r = join_row m None) \<or>
      (\<exists>w\<in>set ws. member_id w = m_id m \<and> period_key w = k \<and> r = join_row m (Some w)))"
  unfolding left_join_def
  by (simp only: set_concat set_map UN_iff bex_simps image_iff set_join_member)

text \<open>The insertion sort permutes the rows, whatever the comparison.\<close>

lemma mset_insert_desc: "mset (insert_desc E x ys) = add_mset x (mset ys)"
  by (induction ys) auto

lemma mset_order_by_desc: "mset (order_by_desc E rows) = mset rows"
  by (induction rows) (auto simp: order_by_desc_def mset_insert_desc)

lemma set_order_by_desc: "set (order_by_desc E rows) = set rows"
  using mset_order_by_desc [of E rows] by (metis set_mset_mset)

lemma set_select_leaderboard:
  "set (select_leaderboard E k ms ws) = set (left_join k ms ws)"
  by (simp add: select_leaderboard_def set_order_by_desc)

lemma mset_ids_select:
  "distinct (map stat_key ws) \<Longrightarrow>
   mset (map e_id (select_leaderboard E k ms ws)) = mset (map m_id ms)"
proof -
  assume d: "distinct (map stat_key ws)"
  have "mset (map e_id (select_leaderboard E k ms ws)) = image_mset e_id (mset (left_join k ms ws))"
    by (simp add: select_leaderboard_def mset_order_by_desc)
  also have "\<dots> = mset (map e_id (left_join k ms ws))" by simp
  finally show ?thesis using left_join_ids [OF d] by simp
qed

text \<open>Rows with 64-bit integer scores are sorted by these, largest first.\<close>

lemma order_expr_exact: "row_score r = Some n \<Longrightarrow> order_expr E r = SInt n"
  by (simp add: order_expr_def row_score_def)

lemma key_ge_int: "key_ge E (SInt i) (SInt j) \<longleftrightarrow> j \<le> i"
  by (simp add: key_ge_def)

lemma sorted_insert_desc:
  assumes "\<forall>r\<in>set (x # ys). row_score r \<noteq> None"
      and "sorted_wrt (\<lambda>a b. the (row_score a) \<ge> the (row_score b)) ys"
  shows "sorted_wrt (\<lambda>a b. the (row_score a) \<ge> the (row_score b)) (insert_desc E x ys)"
  using assms
proof (induction ys)
  case Nil then show ?case by simp
next
  case (Cons y ys)
  from Cons.prems(1) obtain n m where n: "row_score x = Some n" and m: "row_score y = Some m"
    by auto
  have set_ins: "\<And>zs. set (insert_desc E x zs) = insert x (set zs)"
    using mset_insert_desc by (metis set_mset_add_mset_insert set_mset_mset)
  show ?case
  proof (cases "m \<le> n")
    case True
    with n m Cons.prems show ?thesis
      by (auto simp: order_expr_exact key_ge_int)
  next
    case False
    with n m Cons show ?thesis
      by (auto simp: order_expr_exact key_ge_int set_ins)
  qed
qed

lemma sorted_order_by_desc:
  "\<forall>r\<in>set rows. row_score r \<noteq> None \<Longrightarrow>
   sorted_wrt (\<lambda>a b. the (row_score a) \<ge> the (row_score b)) (order_by_desc E rows)"
proof (induction rows)
  case Nil then show ?case by (simp add: order_by_desc_def)
next
  case (Cons r rows)
  then have ih: "sorted_wrt (\<lambda>a b. the (row_score a) \<ge> the (row_score b)) (order_by_desc E rows)"
    by simp
  have "\<forall>x\<in>set (r # order_by_desc E rows). row_score x \<noteq> None"
    using Cons.prems by (simp add: set_order_by_desc)
  from sorted_insert_desc [OF this ih] show ?case by (simp add: order_by_desc_def)
qed

lemma int64_score_Some:
  "int64_score s a b = Some n \<Longrightarrow>
   \<exists>x y z. s = SInt x \<and> a = SInt y \<and> b = SInt z \<and> n = calculate_points x y z"
  by (cases s; cases a; cases b)
     (auto simp: int64_score_def calculate_points_def split: if_splits)

lemma row_score_total:
  assumes "row_score r = Some n"
  shows "calculate_points_dyn E (sessionsAttended r) (assessmentsSubmitted r) (bonusPoints r) =
           Inr (SInt n)"
proof -
  from assms obtain x y z where "sessionsAttended r = SInt x" "assessmentsSubmitted r = SInt y"
    "bonusPoints r = SInt z" "n = calculate_points x y z"
    unfolding row_score_def using int64_score_Some by blast
  then show ?thesis by (simp add: calculate_points_dyn_int)
qed

lemma build_data_exact:
  "\<forall>r\<in>set rows. row_score r \<noteq> None \<Longrightarrow>
   build_data E rows = Inr (map (\<lambda>r. add_total r (SInt (the (row_score r)))) rows)"
proof (induction rows)
  case Nil then show ?case by simp
next
  case (Cons r rows)
  then obtain n where n: "row_score r = Some n" by auto
  from Cons have "build_data E rows = Inr (map (\<lambda>r. add_total r (SInt (the (row_score r)))) rows)"
    by simp
  with n show ?case by (simp add: row_score_total)
qed

lemma join_row_None_score: "row_score (join_row m None) = Some 0"
  by (simp add: row_score_def join_row_def int64_score_def in64_def)

lemma join_row_Some_score:
  "exact_score w \<Longrightarrow> row_score (join_row m (Some w)) \<noteq> None"
  by (simp add: row_score_def join_row_def exact_score_def)

lemma left_join_exact:
  assumes "\<forall>w\<in>set ws. period_key w = k \<longrightarrow> exact_score w"
  shows "\<forall>r\<in>set (left_join k ms ws). row_score r \<noteq> None"
proof
  fix r assume "r \<in> set (left_join k ms ws)"
  then obtain m where
    "r = join_row m None \<or> (\<exists>w\<in>set ws. period_key w = k \<and> r = join_row m (Some w))"
    by (auto simp: set_left_join)
  then show "row_score r \<noteq> None"
  proof
    assume "r = join_row m None"
    then show ?thesis by (simp add: join_row_None_score)
  next
    assume "\<exists>w\<in>set ws. period_key w = k \<and> r = join_row m (Some w)"
    then obtain w where "w \<in> set ws" "period_key w = k" "r = join_row m (Some w)" by blast
    with assms show ?thesis using join_row_Some_score [of w m] by blast
  qed
qed

text \<open>The listing of a table whose rows for the period have 64-bit integer scores.\<close>

lemma leaderboard_data_exact:
  assumes "\<forall>w\<in>set ws. period_key w = k \<longrightarrow> exact_score w"
  shows "leaderboard_data E k ms ws =
           Inr (map (\<lambda>r. add_total r (SInt (the (row_score r)))) (select_leaderboard E k ms ws))"
  unfolding leaderboard_data_def
  by (rule build_data_exact) (simp add: set_select_leaderboard left_join_exact [OF assms])

lemma select_sorted:
  assumes "\<forall>w\<in>set ws. period_key w = k \<longrightarrow> exact_score w"
  shows "sorted_wrt (\<lambda>x y. x \<ge> y)
           (map (\<lambda>r. the (row_score r)) (select_leaderboard E k ms ws))"
proof -
  have "sorted_wrt (\<lambda>a b. the (row_score a) \<ge> the (row_score b)) (select_leaderboard E k ms ws)"
    unfolding select_leaderboard_def
    by (rule sorted_order_by_desc) (rule left_join_exact [OF assms])
  then show ?thesis by (simp add: sorted_wrt_map)
qed

lemma listing_exact:
  assumes dm: "distinct (map m_id ms)" and dw: "distinct (map stat_key ws)"
      and ex: "\<forall>w\<in>set ws. period_key w = k \<longrightarrow> exact_score w"
  shows "\<exists>es. leaderboard_data E k ms ws = Inr es \<and>
         (\<forall>m\<in>set ms. count_list (map e_id es) (m_id m) = 1) \<and>
         length es = length ms \<and>
         (\<forall>e\<in>set es. \<exists>m\<in>set ms.
            e_id e = m_id m \<and> e_name e = m_name m \<and> e_avatar e = m_avatar m) \<and>
         (\<forall>e\<in>set es. \<not> list_ex (\<lambda>r. member_id r = e_id e \<and> period_key r = k) ws \<longrightarrow>
            sessionsAttended e = SInt 0 \<and> assessmentsSubmitted e = SInt 0 \<and>
            bonusPoints e = SInt 0 \<and> totalPoints e = SInt 0) \<and>
         (\<forall>e\<in>set es. \<forall>r\<in>set ws. member_id r = e_id e \<and> period_key r = k \<longrightarrow>
            sessionsAttended e = coalesce (sessions_attended r) (SInt 0) \<and>
            assessmentsSubmitted e = coalesce (assessments_submitted r) (SInt 0) \<and>
            bonusPoints e = coalesce (bonus_points r) (SInt 0)) \<and>
         (\<forall>e\<in>set es. \<exists>s a b.
            sessionsAttended e = SInt s \<and> assessmentsSubmitted e = SInt a \<and>
            bonusPoints e = SInt b \<and> totalPoints e = SInt (calculate_points s a b)) \<and>
         (\<exists>ns. map totalPoints es = map SInt ns \<and> sorted_wrt (\<lambda>x y. x \<ge> y) ns)"
proof -
  let ?rows = "select_leaderboard E k ms ws"
  let ?f = "\<lambda>r. add_total r (SInt (the (row_score r)))"
  let ?es = "map ?f ?rows"
  have data: "leaderboard_data E k ms ws = Inr ?es" by (rule leaderboard_data_exact [OF ex])
  have ids: "map e_id ?es = map e_id ?rows" by (simp add: add_total_def comp_def)
  have rows: "set ?rows = set (left_join k ms ws)" by (rule set_select_leaderboard)
  have scores: "\<forall>r\<in>set ?rows. row_score r \<noteq> None"
    unfolding rows by (rule left_join_exact [OF ex])
  have c1: "\<forall>m\<in>set ms. count_list (map e_id ?es) (m_id m) = 1"
  proof
    fix m assume m: "m \<in> set ms"
    have "count (mset (map e_id ?es)) (m_id m) = count (mset (map m_id ms)) (m_id m)"
      unfolding ids using mset_ids_select [OF dw] by simp
    also have "\<dots> = 1" using dm m by (simp add: distinct_count_atmost_1)
    finally show "count_list (map e_id ?es) (m_id m) = 1" by (simp only: count_mset)
  qed
  have c2: "length ?es = length ms"
  proof -
    have "size (mset (map e_id ?rows)) = size (mset (map m_id ms))"
      using mset_ids_select [OF dw] by simp
    then show ?thesis by simp
  qed
  have origin: "\<And>e. e \<in> set ?es \<Longrightarrow> \<exists>r m. e = ?f r \<and> r \<in> set ?rows \<and> m \<in> set ms \<and>
      ((filter (\<lambda>w. member_id w = m_id m \<and> period_key w = k) ws = [] \<and> r = join_row m None) \<or>
       (\<exists>w\<in>set ws. member_id w = m_id m \<and> period_key w = k \<and> r = join_row m (Some w)))"
  proof -
    fix e assume "e \<in> set ?es"
    then obtain r where r: "r \<in> set ?rows" "e = ?f r" by auto
    from r(1) have "r \<in> set (left_join k ms ws)" by (simp only: rows)
    with r show "\<exists>r m. e = ?f r \<and> r \<in> set ?rows \<and> m \<in> set ms \<and>
      ((filter (\<lambda>w. member_id w = m_id m \<and> period_key w = k) ws = [] \<and> r = join_row m None) \<or>
       (\<exists>w\<in>set ws. member_id w = m_id m \<and> period_key w = k \<and> r = join_row m (Some w)))"
      unfolding set_left_join by blast
  qed
  have c3: "\<forall>e\<in>set ?es. \<exists>m\<in>set ms.
            e_id e = m_id m \<and> e_name e = m_name m \<and> e_avatar e = m_avatar m"
  proof
    fix e assume "e \<in> set ?es"
    from origin [OF this] obtain r m where "e = ?f r" "m \<in> set ms" "\<exists>w. r = join_row m w"
      by blast
    then show "\<exists>m\<in>set ms. e_id e = m_id m \<and> e_name e = m_name m \<and> e_avatar e = m_avatar m"
      by (auto simp: add_total_def join_row_def)
  qed
  have c4: "\<forall>e\<in>set ?es. \<not> list_ex (\<lambda>r. member_id r = e_id e \<and> period_key r = k) ws \<longrightarrow>
            sessionsAttended e = SInt 0 \<and> assessmentsSubmitted e = SInt 0 \<and>
            bonusPoints e = SInt 0 \<and> totalPoints e = SInt 0"
  proof (intro ballI impI)
    fix e assume e: "e \<in> set ?es"
      and no: "\<not> list_ex (\<lambda>r. member_id r = e_id e \<and> period_key r = k) ws"
    from origin [OF e] obtain r m where rm: "e = ?f r" "m \<in> set ms"
      "r = join_row m None \<or>
       (\<exists>w\<in>set ws. member_id w = m_id m \<and> period_key w = k \<and> r = join_row m (Some w))"
      by blast
    have id: "e_id e = m_id m" using rm by (auto simp: add_total_def join_row_def)
    from no id have "\<not> (\<exists>w\<in>set ws. member_id w = m_id m \<and> period_key w = k)"
      by (simp add: list_ex_iff)
    with rm(3) have "r = join_row m None" by blast
    with rm(1) show "sessionsAttended e = SInt 0 \<and> assessmentsSubmitted e = SInt 0 \<and>
            bonusPoints e = SInt 0 \<and> totalPoints e = SInt 0"
      by (simp add: add_total_def join_row_None_score) (simp add: join_row_def)
  qed
  have c5: "\<forall>e\<in>set ?es. \<forall>w\<in>set ws. member_id w = e_id e \<and> period_key w = k \<longrightarrow>
            sessionsAttended e = coalesce (sessions_attended w) (SInt 0) \<and>
            assessmentsSubmitted e = coalesce (assessments_submitted w) (SInt 0) \<and>
            bonusPoints e = coalesce (bonus_points w) (SInt 0)"
  proof (intro ballI impI)
    fix e w assume e: "e \<in> set ?es" and w: "w \<in> set ws"
      and key: "member_id w = e_id e \<and> period_key w = k"
    from origin [OF e] obtain r m where rm: "e = ?f r" "m \<in> set ms"
      "(filter (\<lambda>w. member_id w = m_id m \<and> period_key w = k) ws = [] \<and> r = join_row m None) \<or>
       (\<exists>w\<in>set ws. member_id w = m_id m \<and> period_key w = k \<and> r = join_row m (Some w))"
      by blast
    have id: "e_id e = m_id m" using rm by (auto simp: add_total_def join_row_def)
    with w key have "w \<in> set (filter (\<lambda>w. member_id w = m_id m \<and> period_key w = k) ws)" by simp
    then have "filter (\<lambda>w. member_id w = m_id m \<and> period_key w = k) ws \<noteq> []" by force
    with rm(3) obtain w' where w': "w' \<in> set ws" "member_id w' = m_id m" "period_key w' = k"
      "r = join_row m (Some w')" by auto
    from key w' id have "stat_key w = stat_key w'" by (simp add: stat_key_def)
    with dw w w'(1) have "w = w'" by (meson distinct_map inj_onD)
    with rm(1) w'(4) show "sessionsAttended e = coalesce (sessions_attended w) (SInt 0) \<and>
            assessmentsSubmitted e = coalesce (assessments_submitted w) (SInt 0) \<and>
            bonusPoints e = coalesce (bonus_points w) (SInt 0)"
      by (simp add: add_total_def join_row_def)
  qed
  have c6: "\<forall>e\<in>set ?es. \<exists>s a b.
            sessionsAttended e = SInt s \<and> assessmentsSubmitted e = SInt a \<and>
            bonusPoints e = SInt b \<and> totalPoints e = SInt (calculate_points s a b)"
  proof
    fix e assume "e \<in> set ?es"
    then obtain r where r: "r \<in> set ?rows" "e = ?f r" by auto
    with scores obtain n where n: "row_score r = Some n" by auto
    then obtain x y z where "sessionsAttended r = SInt x" "assessmentsSubmitted r = SInt y"
      "bonusPoints r = SInt z" "n = calculate_points x y z"
      unfolding row_score_def using int64_score_Some by blast
    with r(2) n show "\<exists>s a b.
            sessionsAttended e = SInt s \<and> assessmentsSubmitted e = SInt a \<and>
            bonusPoints e = SInt b \<and> totalPoints e = SInt (calculate_points s a b)"
      by (simp add: add_total_def)
  qed
  have c7: "\<exists>ns. map totalPoints ?es = map SInt ns \<and> sorted_wrt (\<lambda>x y. x \<ge> y) ns"
  proof (intro exI conjI)
    show "map totalPoints ?es = map SInt (map (\<lambda>r. the (row_score r)) ?rows)"
      by (simp add: add_total_def comp_def)
    show "sorted_wrt (\<lambda>x y. x \<ge> y) (map (\<lambda>r. the (row_score r)) ?rows)"
      by (rule select_sorted [OF ex])
  qed
  from data c1 c2 c3 c4 c5 c6 c7 show ?thesis by blast
qed

text \<open>
  C2 (as amended). In a store that meets the schema's key constraints and whose stat
  rows \<open>T\<close> for the period hold \<open>NULL\<close> or integers with a score inside 64 bits, the weekly
  (resp. monthly) route answers 200 with a listing that contains every member exactly
  once and nothing else; an entry whose member has no stat row for the period has the
  three stat fields and the score equal to zero; an entry whose member has one carries
  that row's fields (\<open>NULL\<close> read as 0); every entry carries the total computed from its
  fields; and the totals are in descending order.
\<close>

theorem leaderboard_listing:
  assumes "schema_ok st"
      and "(T, resp) = (weekly_leaderboard st, fst (get_weekly_leaderboard E k sess st)) \<or>
           (T, resp) = (monthly_leaderboard st, fst (get_monthly_leaderboard E k sess st))"
      and "\<forall>r\<in>set T. period_key r = k \<longrightarrow> exact_score r"
  shows "\<exists>ty es. resp = (LeaderboardBody ty k es, 200) \<and>
         (\<forall>m\<in>set (members st). count_list (map e_id es) (m_id m) = 1) \<and>
         length es = length (members st) \<and>
         (\<forall>e\<in>set es. \<exists>m\<in>set (members st).
            e_id e = m_id m \<and> e_name e = m_name m \<and> e_avatar e = m_avatar m) \<and>
         (\<forall>e\<in>set es. \<not> list_ex (\<lambda>r. member_id r = e_id e \<and> period_key r = k) T \<longrightarrow>
            sessionsAttended e = SInt 0 \<and> assessmentsSubmitted e = SInt 0 \<and>
            bonusPoints e = SInt 0 \<and> totalPoints e = SInt 0) \<and>
         (\<forall>e\<in>set es. \<forall>r\<in>set T. member_id r = e_id e \<and> period_key r = k \<longrightarrow>
            sessionsAttended e = coalesce (sessions_attended r) (SInt 0) \<and>
            assessmentsSubmitted e = coalesce (assessments_submitted r) (SInt 0) \<and>
            bonusPoints e = coalesce (bonus_points r) (SInt 0)) \<and>
         (\<forall>e\<in>set es. \<exists>s a b.
            sessionsAttended e = SInt s \<and> assessmentsSubmitted e = SInt a \<and>
            bonusPoints e = SInt b \<and> totalPoints e = SInt (calculate_points s a b)) \<and>
         (\<exists>ns. map totalPoints es = map SInt ns \<and> sorted_wrt (\<lambda>x y. x \<ge> y) ns)"
proof -
  from assms(1) have dm: "distinct (map m_id (members st))"
    and dw: "distinct (map stat_key (weekly_leaderboard st))"
    and dmo: "distinct (map stat_key (monthly_leaderboard st))"
    by (simp_all add: schema_ok_def)
  from assms(2) have T: "T = weekly_leaderboard st \<or> T = monthly_leaderboard st" by auto
  with dw dmo have dT: "distinct (map stat_key T)" by auto
  from listing_exact [OF dm dT assms(3), of E] obtain es where
    data: "leaderboard_data E k (members st) T = Inr es" and
    props: "(\<forall>m\<in>set (members st). count_list (map e_id es) (m_id m) = 1) \<and>
         length es = length (members st) \<and>
         (\<forall>e\<in>set es. \<exists>m\<in>set (members st).
            e_id e = m_id m \<and> e_name e = m_name m \<and> e_avatar e = m_avatar m) \<and>
         (\<forall>e\<in>set es. \<not> list_ex (\<lambda>r. member_id r = e_id e \<and> period_key r = k) T \<longrightarrow>
            sessionsAttended e = SInt 0 \<and> assessmentsSubmitted e = SInt 0 \<and>
            bonusPoints e = SInt 0 \<and> totalPoints e = SInt 0) \<and>
         (\<forall>e\<in>set es. \<forall>r\<in>set T. member_id r = e_id e \<and> period_key r = k \<longrightarrow>
            sessionsAttended e = coalesce (sessions_attended r) (SInt 0) \<and>
            assessmentsSubmitted e = coalesce (assessments_submitted r) (SInt 0) \<and>
            bonusPoints e = coalesce (bonus_points r) (SInt 0)) \<and>
         (\<forall>e\<in>set es. \<exists>s a b.
            sessionsAttended e = SInt s \<and> assessmentsSubmitted e = SInt a \<and>
            bonusPoints e = SInt b \<and> totalPoints e = SInt (calculate_points s a b)) \<and>
         (\<exists>ns. map totalPoints es = map SInt ns \<and> sorted_wrt (\<lambda>x y. x \<ge> y) ns)"
    by blast
  from assms(2) data have "resp = (LeaderboardBody ''weekly'' k es, 200) \<or>
                           resp = (LeaderboardBody ''monthly'' k es, 200)"
    by (auto simp: get_weekly_leaderboard_def get_monthly_leaderboard_def ok_def)
  then obtain ty where "resp = (LeaderboardBody ty k es, 200)" by blast
  with props show ?thesis by blast
qed

theorem leaderboard_listing_witness:
  "schema_ok sample_store \<and>
   fst (get_weekly_leaderboard sample_env ''2024-01-01'' empty_session sample_store) =
     (LeaderboardBody ''weekly'' ''2024-01-01''
        [\<lparr>e_id = 2, e_name = ''Bob'', e_avatar = Some ''b.png'', sessionsAttended = SInt 3,
          assessmentsSubmitted = SInt 1, bonusPoints = SInt 5, totalPoints = SInt 55\<rparr>,
         \<lparr>e_id = 1, e_name = ''Alice'', e_avatar = None, sessionsAttended = SInt 1,
          assessmentsSubmitted = SInt 0, bonusPoints = SInt 2, totalPoints = SInt 12\<rparr>,
         \<lparr>e_id = 3, e_name = ''Carol'', e_avatar = None, sessionsAttended = SInt 0,
          assessmentsSubmitted = SInt 0, bonusPoints = SInt 0, totalPoints = SInt 0\<rparr>], 200) \<and>
   (\<exists>es. body_data (fst (fst
      (get_weekly_leaderboard sample_env ''2024-01-01'' empty_session sample_store))) = es \<and>
      length es = 3 \<and>
      (\<exists>ns. map totalPoints es = map SInt ns \<and> sorted_wrt (\<lambda>x y. x \<ge> y) ns))"
proof -
  let ?resp = "fst (get_weekly_leaderboard sample_env ''2024-01-01'' empty_session sample_store)"
  have h1: "schema_ok sample_store" by code_simp
  have h2: "(weekly_leaderboard sample_store, ?resp) =
              (weekly_leaderboard sample_store,
               fst (get_weekly_leaderboard sample_env ''2024-01-01'' empty_session sample_store)) \<or>
            (weekly_leaderboard sample_store, ?resp) =
              (monthly_leaderboard sample_store,
               fst (get_monthly_leaderboard sample_env ''2024-01-01'' empty_session sample_store))"
    by (rule disjI1) (rule refl)
  have h3: "\<forall>r\<in>set (weekly_leaderboard sample_store).
              period_key r = ''2024-01-01'' \<longrightarrow> exact_score r"
    by code_simp
  have n: "length (members sample_store) = 3" by (simp add: sample_store_def)
  have v: "?resp =
     (LeaderboardBody ''weekly'' ''2024-01-01''
        [\<lparr>e_id = 2, e_name = ''Bob'', e_avatar = Some ''b.png'', sessionsAttended = SInt 3,
          assessmentsSubmitted = SInt 1, bonusPoints = SInt 5, totalPoints = SInt 55\<rparr>,
         \<lparr>e_id = 1, e_name = ''Alice'', e_avatar = None, sessionsAttended = SInt 1,
          assessmentsSubmitted = SInt 0, bonusPoints = SInt 2, totalPoints = SInt 12\<rparr>,
         \<lparr>e_id = 3, e_name = ''Carol'', e_avatar = None, sessionsAttended = SInt 0,
          assessmentsSubmitted = SInt 0, bonusPoints = SInt 0, totalPoints = SInt 0\<rparr>], 200)"
    by code_simp
  from leaderboard_listing [OF h1 h2 h3] obtain ty es where
    r: "?resp = (LeaderboardBody ty ''2024-01-01'' es, 200)"
    and l: "length es = length (members sample_store)"
    and s: "\<exists>ns. map totalPoints es = map SInt ns \<and> sorted_wrt (\<lambda>x y. x \<ge> y) ns"
    by blast
  from r have "body_data (fst ?resp) = es" by simp
  with l n s have "\<exists>es. body_data (fst ?resp) = es \<and> length es = 3 \<and>
      (\<exists>ns. map totalPoints es = map SInt ns \<and> sorted_wrt (\<lambda>x y. x \<ge> y) ns)"
    by simp
  with h1 v show ?thesis by (intro conjI)
qed

text \<open>
  The claim as stated, for every state of the store, fails: an update with the text
  \<open>abc\<close> for \<open>sessions_attended\<close> is accepted and stored, the store still meets the key
  constraints, and the weekly route then raises \<open>TypeError\<close> in \<open>calculate_points\<close> and
  answers 500 with no listing.
\<close>

theorem leaderboard_listing_counterexample:
  "fst (update_weekly_leaderboard sample_env
          (JObj [(''member_id'', JInt 3), (''sessions_attended'', JStr ''abc'')])
          ''2024-01-01'' admin_session sample_store) =
     (MessageBody ''Weekly leaderboard updated'', 200) \<and>
   schema_ok (snd (snd (update_weekly_leaderboard sample_env
          (JObj [(''member_id'', JInt 3), (''sessions_attended'', JStr ''abc'')])
          ''2024-01-01'' admin_session sample_store))) \<and>
   fst (get_weekly_leaderboard sample_env ''2024-01-01'' empty_session
     (snd (snd (update_weekly_leaderboard sample_env
          (JObj [(''member_id'', JInt 3), (''sessions_attended'', JStr ''abc'')])
          ''2024-01-01'' admin_session sample_store)))) = (InternalServerError, 500)"
  by code_simp

subsection \<open>The authentication gate\<close>

text \<open>
  C4. Without \<open>user_id\<close> in the session, the decorator answers 401 with the code
  \<open>AUTH_REQUIRED\<close> whatever the wrapped function \<open>f\<close> is (it is not called), and returns
  the session and the store as they were; every admin route and logout is so wrapped.
\<close>

theorem protected_requires_session:
  assumes "user_id sess = None"
  shows "require_auth f sess st =
           ((ErrorBody ''Authentication required'' (Some ''AUTH_REQUIRED''), 401), sess, st) \<and>
         logout sess st =
           ((ErrorBody ''Authentication required'' (Some ''AUTH_REQUIRED''), 401), sess, st) \<and>
         add_member E am sess st =
           ((ErrorBody ''Authentication required'' (Some ''AUTH_REQUIRED''), 401), sess, st) \<and>
         update_weekly_leaderboard E ur k sess st =
           ((ErrorBody ''Authentication required'' (Some ''AUTH_REQUIRED''), 401), sess, st) \<and>
         update_monthly_leaderboard E ur k sess st =
           ((ErrorBody ''Authentication required'' (Some ''AUTH_REQUIRED''), 401), sess, st) \<and>
         delete_member mid sess st =
           ((ErrorBody ''Authentication required'' (Some ''AUTH_REQUIRED''), 401), sess, st) \<and>
         delete_weekly_entry mid k sess st =
           ((ErrorBody ''Authentication required'' (Some ''AUTH_REQUIRED''), 401), sess, st) \<and>
         delete_monthly_entry mid k sess st =
           ((ErrorBody ''Authentication required'' (Some ''AUTH_REQUIRED''), 401), sess, st)"
  using assms
  by (simp add: require_auth_def logout_def add_member_def update_weekly_leaderboard_def
      update_monthly_leaderboard_def delete_member_def delete_weekly_entry_def
      delete_monthly_entry_def)

theorem protected_requires_session_witness:
  "user_id empty_session = None \<and>
   delete_member 1 empty_session sample_store =
     ((ErrorBody ''Authentication required'' (Some ''AUTH_REQUIRED''), 401),
      empty_session, sample_store) \<and>
   add_member sample_env (JObj [(''name'', JStr ''Dave'')]) empty_session sample_store =
     ((ErrorBody ''Authentication required'' (Some ''AUTH_REQUIRED''), 401),
      empty_session, sample_store)"
proof -
  have h: "user_id empty_session = None" by (simp add: empty_session_def)
  note t = protected_requires_session [OF h, of _ sample_store sample_env
      "JObj [(''name'', JStr ''Dave'')]" _ _ 1]
  from t h show ?thesis by blast
qed

subsection \<open>Adding a member\<close>

lemma require_auth_pass: "user_id sess \<noteq> None \<Longrightarrow> require_auth f sess st = f sess st"
  by (auto simp: require_auth_def)

lemma add_member_body_cases:
  "add_member_body E d s t = (r, s', t') \<Longrightarrow>
   s' = s \<and>
   (snd r \<noteq> 200 \<longrightarrow> t' = t) \<and>
   (snd r = 200 \<longrightarrow> map action (audit_log t') = map action (audit_log t) @ [''ADD_MEMBER''])"
  by (auto simp: add_member_body_def Let_def ok_def server_error_def log_action_def
      split: json.splits sum.splits if_splits)

text \<open>
  C10 (as amended). For an authenticated caller, adding a name that is already in the
  members table, with an avatar that is absent or that SQLite can bind, answers 400
  with the error "Member already exists" and returns the store unchanged: no member
  row and no audit entry is written. For every call of the route, a response other than
  200 leaves the store as it was, and a 200 response appends exactly one audit entry,
  tagged \<open>ADD_MEMBER\<close>.
\<close>

theorem add_member_duplicate:
  "(user_id sess \<noteq> None \<and> dict_get kvs ''name'' = JStr name \<and> name \<noteq> [] \<and>
    name \<in> set (map m_name (members st)) \<and>
    (\<exists>av. bind E (dict_get_default kvs ''avatar'' (JStr (default_avatar name))) = Inr av) \<longrightarrow>
      add_member E (JObj kvs) sess st =
        ((ErrorBody ''Member already exists'' None, 400), sess, st)) \<and>
   (snd (fst (add_member E d s t)) \<noteq> 200 \<longrightarrow> snd (snd (add_member E d s t)) = t) \<and>
   (snd (fst (add_member E d s t)) = 200 \<longrightarrow>
      map action (audit_log (snd (snd (add_member E d s t)))) =
        map action (audit_log t) @ [''ADD_MEMBER''])"
proof (intro conjI)
  show "user_id sess \<noteq> None \<and> dict_get kvs ''name'' = JStr name \<and> name \<noteq> [] \<and>
    name \<in> set (map m_name (members st)) \<and>
    (\<exists>av. bind E (dict_get_default kvs ''avatar'' (JStr (default_avatar name))) = Inr av) \<longrightarrow>
      add_member E (JObj kvs) sess st =
        ((ErrorBody ''Member already exists'' None, 400), sess, st)"
    by (auto simp: add_member_def require_auth_pass add_member_body_def)
next
  obtain r s' t' where b: "add_member_body E d s t = (r, s', t')"
    by (cases "add_member_body E d s t") auto
  note c = add_member_body_cases [OF b]
  show "snd (fst (add_member E d s t)) \<noteq> 200 \<longrightarrow> snd (snd (add_member E d s t)) = t"
    using b c by (cases "user_id s = None") (auto simp: add_member_def require_auth_def)
  show "snd (fst (add_member E d s t)) = 200 \<longrightarrow>
      map action (audit_log (snd (snd (add_member E d s t)))) =
        map action (audit_log t) @ [''ADD_MEMBER'']"
    using b c by (cases "user_id s = None") (auto simp: add_member_def require_auth_def)
qed

theorem add_member_duplicate_witness:
  "add_member sample_env (JObj [(''name'', JStr ''Bob''), (''avatar'', JInt 7)])
     admin_session sample_store =
     ((ErrorBody ''Member already exists'' None, 400), admin_session, sample_store) \<and>
   map action (audit_log (snd (snd
     (add_member sample_env (JObj [(''name'', JStr ''Dave'')]) admin_session sample_store)))) =
     [''ADD_MEMBER'']"
proof -
  let ?kvs = "[(''name'', JStr ''Bob''), (''avatar'', JInt 7)]"
  have h: "user_id admin_session \<noteq> None \<and> dict_get ?kvs ''name'' = JStr ''Bob'' \<and> ''Bob'' \<noteq> [] \<and>
    ''Bob'' \<in> set (map m_name (members sample_store)) \<and>
    (\<exists>av. bind sample_env (dict_get_default ?kvs ''avatar'' (JStr (default_avatar ''Bob''))) = Inr av)"
    by (simp add: admin_session_def dict_get_def dict_get_default_def sample_store_def in64_def)
  have s: "snd (fst (add_member sample_env (JObj [(''name'', JStr ''Dave'')])
             admin_session sample_store)) = 200"
    by code_simp
  have a: "audit_log sample_store = []" by (simp add: sample_store_def)
  note t = add_member_duplicate [of admin_session ?kvs "''Bob''" sample_store sample_env
      "JObj [(''name'', JStr ''Dave'')]" admin_session sample_store]
  from t [THEN conjunct1, THEN mp, OF h]
  have c1: "add_member sample_env (JObj ?kvs) admin_session sample_store =
     ((ErrorBody ''Member already exists'' None, 400), admin_session, sample_store)" .
  from t [THEN conjunct2, THEN conjunct2, THEN mp, OF s] a
  have c2: "map action (audit_log (snd (snd
     (add_member sample_env (JObj [(''name'', JStr ''Dave'')]) admin_session sample_store)))) =
     [''ADD_MEMBER'']" by simp
  from c1 c2 show ?thesis by (rule conjI)
qed

text \<open>
  The claim as stated fails: with the existing name Bob and an object as avatar the
  \<open>INSERT\<close> cannot bind the avatar and raises \<open>ProgrammingError\<close>, which the \<open>except\<close>
  clause does not catch, so the route answers 500 and not 400.
\<close>

theorem add_member_duplicate_counterexample:
  "''Bob'' \<in> set (map m_name (members sample_store)) \<and>
   add_member sample_env (JObj [(''name'', JStr ''Bob''), (''avatar'', JObj [(''x'', JInt 1)])])
     admin_session sample_store =
     ((InternalServerError, 500), admin_session, sample_store)"
  by code_simp

subsection \<open>Deleting a member\<close>

lemma find_id_None: "find (\<lambda>m. m_id m = i) ms = None \<longleftrightarrow> i \<notin> m_id ` set ms"
  by (auto simp: find_None_iff)

lemma find_id_Some:
  "i \<in> m_id ` set ms \<Longrightarrow> \<exists>m. find (\<lambda>m. m_id m = i) ms = Some m \<and> m \<in> set ms \<and> m_id m = i"
proof (cases "find (\<lambda>m. m_id m = i) ms")
  case None
  assume "i \<in> m_id ` set ms"
  with None show ?thesis by (simp add: find_id_None)
next
  case (Some m)
  then have "m \<in> set ms \<and> m_id m = i" by (auto simp: find_Some_iff)
  with Some show ?thesis by simp
qed

lemma build_data_set:
  "build_data E rows = Inr es \<Longrightarrow>
   \<forall>e\<in>set es. \<exists>r\<in>set rows. \<exists>p.
     calculate_points_dyn E (sessionsAttended r) (assessmentsSubmitted r) (bonusPoints r) = Inr p \<and>
     e = add_total r p"
proof (induction rows arbitrary: es)
  case Nil then show ?case by simp
next
  case (Cons r rows)
  from Cons.prems obtain p es' where
    p: "calculate_points_dyn E (sessionsAttended r) (assessmentsSubmitted r) (bonusPoints r) = Inr p"
    and es': "build_data E rows = Inr es'" and es: "es = add_total r p # es'"
    by (auto split: sum.splits)
  from Cons.IH [OF es'] p es show ?case by auto
qed

lemma listing_ids_members:
  assumes "leaderboard_data E k ms ws = Inr es"
  shows "e_id ` set es \<subseteq> m_id ` set ms"
proof
  fix i assume "i \<in> e_id ` set es"
  then obtain e where e: "e \<in> set es" "i = e_id e" by auto
  from build_data_set [OF assms [unfolded leaderboard_data_def]] e(1)
  obtain r p where r: "r \<in> set (select_leaderboard E k ms ws)" "e = add_total r p" by blast
  from r(1) have "r \<in> set (left_join k ms ws)" by (simp add: set_select_leaderboard)
  then obtain m where "m \<in> set ms" "\<exists>w. r = join_row m w" by (auto simp: set_left_join)
  with r(2) e(2) show "i \<in> m_id ` set ms" by (auto simp: add_total_def join_row_def)
qed

lemma route_ids_members:
  "e_id ` set (body_data (fst (fst (get_weekly_leaderboard E k sess st)))) \<subseteq> m_id ` set (members st)"
  "e_id ` set (body_data (fst (fst (get_monthly_leaderboard E k sess st)))) \<subseteq> m_id ` set (members st)"
  using listing_ids_members [of E k "members st" "weekly_leaderboard st"]
        listing_ids_members [of E k "members st" "monthly_leaderboard st"]
  by (auto simp: get_weekly_leaderboard_def get_monthly_leaderboard_def ok_def server_error_def
      split: sum.splits)

lemma delete_member_body_found:
  assumes "in64 (int mid)" and "find (\<lambda>m. m_id m = int mid) (members st) = Some m"
  shows "fst (delete_member_body mid sess st) = (MessageBody (''Member '' @ m_name m @ '' deleted''), 200)"
    and "fst (snd (delete_member_body mid sess st)) = sess"
    and "weekly_leaderboard (snd (snd (delete_member_body mid sess st))) =
           filter (\<lambda>r. member_id r \<noteq> int mid) (weekly_leaderboard st)"
    and "monthly_leaderboard (snd (snd (delete_member_body mid sess st))) =
           filter (\<lambda>r. member_id r \<noteq> int mid) (monthly_leaderboard st)"
    and "members (snd (snd (delete_member_body mid sess st))) =
           filter (\<lambda>m. m_id m \<noteq> int mid) (members st)"
  using assms by (simp_all add: delete_member_body_def Let_def ok_def log_action_def)

text \<open>
  C5 (as amended). For an authenticated caller and an id within 64 bits: when no
  member has the id, the route answers 404 "Member not found" and changes nothing.
  Otherwise it answers 200 and, in one step, removes every weekly and monthly stat row
  of the member and the member row (and nothing else from these tables), so that no
  listing of either leaderboard, for any period, has an entry with this id; this does
  not depend on the member having stat rows.
\<close>

theorem delete_member_cascade:
  assumes "user_id sess \<noteq> None" and "in64 (int mid)"
  shows "(int mid \<notin> m_id ` set (members st) \<longrightarrow>
            delete_member mid sess st = ((ErrorBody ''Member not found'' None, 404), sess, st)) \<and>
         (int mid \<in> m_id ` set (members st) \<longrightarrow>
            snd (fst (delete_member mid sess st)) = 200 \<and>
            weekly_leaderboard (snd (snd (delete_member mid sess st))) =
              filter (\<lambda>r. member_id r \<noteq> int mid) (weekly_leaderboard st) \<and>
            monthly_leaderboard (snd (snd (delete_member mid sess st))) =
              filter (\<lambda>r. member_id r \<noteq> int mid) (monthly_leaderboard st) \<and>
            members (snd (snd (delete_member mid sess st))) =
              filter (\<lambda>m. m_id m \<noteq> int mid) (members st) \<and>
            int mid \<notin> e_id ` set (body_data (fst (fst
              (get_weekly_leaderboard E k sess' (snd (snd (delete_member mid sess st))))))) \<and>
            int mid \<notin> e_id ` set (body_data (fst (fst
              (get_monthly_leaderboard E k sess' (snd (snd (delete_member mid sess st))))))))"
proof (intro conjI impI)
  assume "int mid \<notin> m_id ` set (members st)"
  then have "find (\<lambda>m. m_id m = int mid) (members st) = None" by (simp add: find_id_None)
  with assms show "delete_member mid sess st = ((ErrorBody ''Member not found'' None, 404), sess, st)"
    by (simp add: delete_member_def require_auth_pass delete_member_body_def)
next
  assume "int mid \<in> m_id ` set (members st)"
  then obtain m where m: "find (\<lambda>m. m_id m = int mid) (members st) = Some m"
    using find_id_Some by blast
  let ?st' = "snd (snd (delete_member mid sess st))"
  have eq: "delete_member mid sess st = delete_member_body mid sess st"
    using assms(1) by (simp add: delete_member_def require_auth_pass)
  note f = delete_member_body_found [OF assms(2) m, of sess]
  show "snd (fst (delete_member mid sess st)) = 200" by (simp add: eq f(1))
  show "weekly_leaderboard ?st' = filter (\<lambda>r. member_id r \<noteq> int mid) (weekly_leaderboard st)"
    by (simp only: eq f(3))
  show "monthly_leaderboard ?st' = filter (\<lambda>r. member_id r \<noteq> int mid) (monthly_leaderboard st)"
    by (simp only: eq f(4))
  show ms: "members ?st' = filter (\<lambda>m. m_id m \<noteq> int mid) (members st)"
    by (simp only: eq f(5))
  have no: "int mid \<notin> m_id ` set (members ?st')" unfolding ms by auto
  show "int mid \<notin> e_id ` set (body_data (fst (fst (get_weekly_leaderboard E k sess' ?st'))))"
    using no route_ids_members(1) [of E k sess' ?st'] by blast
  show "int mid \<notin> e_id ` set (body_data (fst (fst (get_monthly_leaderboard E k sess' ?st'))))"
    using no route_ids_members(2) [of E k sess' ?st'] by blast
qed

theorem delete_member_cascade_witness:
  "delete_member 7 admin_session sample_store =
     ((ErrorBody ''Member not found'' None, 404), admin_session, sample_store) \<and>
   snd (fst (delete_member 3 admin_session sample_store)) = 200 \<and>
   monthly_leaderboard (snd (snd (delete_member 3 admin_session sample_store))) = [] \<and>
   int 3 \<notin> e_id ` set (body_data (fst (fst (get_monthly_leaderboard sample_env ''2024-01''
         empty_session (snd (snd (delete_member 3 admin_session sample_store)))))))"
proof -
  have h: "user_id admin_session \<noteq> None" by (simp add: admin_session_def)
  have r7: "in64 (int 7)" and r3: "in64 (int 3)" by (simp_all add: in64_def)
  have n7: "int 7 \<notin> m_id ` set (members sample_store)" by (simp add: sample_store_def)
  have i3: "int 3 \<in> m_id ` set (members sample_store)" by (simp add: sample_store_def)
  have mo: "filter (\<lambda>r. member_id r \<noteq> int 3) (monthly_leaderboard sample_store) = []"
    by (simp add: sample_store_def)
  note t7 = delete_member_cascade [OF h r7, of sample_store, THEN conjunct1, THEN mp, OF n7]
  note t3 = delete_member_cascade [OF h r3, of sample_store sample_env "''2024-01''" empty_session,
      THEN conjunct2, THEN mp, OF i3]
  have b1: "snd (fst (delete_member 3 admin_session sample_store)) = 200"
    by (rule t3 [THEN conjunct1])
  have b3: "monthly_leaderboard (snd (snd (delete_member 3 admin_session sample_store))) = []"
    by (simp only: t3 [THEN conjunct2, THEN conjunct2, THEN conjunct1] mo)
  have b4: "int 3 \<notin> e_id ` set (body_data (fst (fst (get_monthly_leaderboard sample_env ''2024-01''
         empty_session (snd (snd (delete_member 3 admin_session sample_store)))))))"
    by (rule t3 [THEN conjunct2, THEN conjunct2, THEN conjunct2, THEN conjunct2, THEN conjunct2])
  from t7 b1 b3 b4 show ?thesis by (intro conjI)
qed

text \<open>
  The claim as stated fails for an id that no member has and that does not fit 64 bits:
  the first \<open>SELECT\<close> cannot bind it and raises \<open>OverflowError\<close>, so the route answers
  500 and not 404.
\<close>

theorem delete_member_cascade_counterexample:
  "int 9223372036854775808 \<notin> m_id ` set (members sample_store) \<and>
   delete_member 9223372036854775808 admin_session sample_store =
     ((InternalServerError, 500), admin_session, sample_store)"
  by (simp add: sample_store_def delete_member_def require_auth_def admin_session_def
      delete_member_body_def in64_def server_error_def)

subsection \<open>Upserting a stat row\<close>

lemma upsert_stat_keys:
  "map stat_key (upsert_stat mid s a b k rows) =
     (if list_ex (\<lambda>r. member_id r = mid \<and> period_key r = k) rows
      then map stat_key rows else map stat_key rows @ [(mid, k)])"
  by (auto simp: upsert_stat_def stat_key_def)

lemma upsert_stat_distinct:
  assumes "distinct (map stat_key rows)"
  shows "distinct (map stat_key (upsert_stat mid s a b k rows))"
proof (cases "list_ex (\<lambda>r. member_id r = mid \<and> period_key r = k) rows")
  case True
  with assms show ?thesis by (simp add: upsert_stat_keys)
next
  case False
  then have "(mid, k) \<notin> set (map stat_key rows)"
    by (auto simp: list_ex_iff stat_key_def)
  with assms False show ?thesis by (simp add: upsert_stat_keys)
qed

lemma upsert_stat_others:
  "filter (\<lambda>r. \<not> (member_id r = mid \<and> period_key r = k)) (upsert_stat mid s a b k rows) =
   filter (\<lambda>r. \<not> (member_id r = mid \<and> period_key r = k)) rows"
proof -
  have "filter (\<lambda>r. \<not> (member_id r = mid \<and> period_key r = k))
          (map (\<lambda>r. if member_id r = mid \<and> period_key r = k
                     then r\<lparr>sessions_attended := s, assessments_submitted := a, bonus_points := b\<rparr>
                     else r) rows) =
        filter (\<lambda>r. \<not> (member_id r = mid \<and> period_key r = k)) rows"
    by (induction rows) auto
  then show ?thesis by (simp add: upsert_stat_def)
qed

lemma upsert_stat_row:
  assumes "distinct (map stat_key rows)"
  shows "filter (\<lambda>r. member_id r = mid \<and> period_key r = k) (upsert_stat mid s a b k rows) =
         [\<lparr>member_id = mid, sessions_attended = s, assessments_submitted = a,
           bonus_points = b, period_key = k\<rparr>]"
proof (cases "list_ex (\<lambda>r. member_id r = mid \<and> period_key r = k) rows")
  case False
  then have "filter (\<lambda>r. member_id r = mid \<and> period_key r = k) rows = []"
    by (auto simp: list_ex_iff filter_empty_conv)
  with False show ?thesis by (simp add: upsert_stat_def)
next
  case True
  let ?P = "\<lambda>r. member_id r = mid \<and> period_key r = k"
  let ?f = "\<lambda>r. if member_id r = mid \<and> period_key r = k
                 then r\<lparr>sessions_attended := s, assessments_submitted := a, bonus_points := b\<rparr>
                 else r"
  from True have "filter ?P rows \<noteq> []" by (auto simp: list_ex_iff filter_empty_conv)
  with filter_key_le1 [OF assms, of mid k] obtain r where r: "filter ?P rows = [r]" by auto
  then have "r \<in> set (filter ?P rows)" by simp
  then have key: "member_id r = mid" "period_key r = k" by auto
  have "filter ?P (map ?f rows) = map ?f (filter ?P rows)"
    by (induction rows) auto
  with r have "filter ?P (map ?f rows) = [?f r]" by simp
  with key have "filter ?P (map ?f rows) =
      [r\<lparr>sessions_attended := s, assessments_submitted := a, bonus_points := b\<rparr>]" by simp
  moreover have "r\<lparr>sessions_attended := s, assessments_submitted := a, bonus_points := b\<rparr> =
      \<lparr>member_id = mid, sessions_attended = s, assessments_submitted = a,
       bonus_points = b, period_key = k\<rparr>"
    using key by (cases r) simp
  ultimately show ?thesis using True by (simp add: upsert_stat_def)
qed



lemma update_weekly_unfold:
  assumes "user_id sess \<noteq> None"
  shows "update_weekly_leaderboard E (JObj kvs) k sess st =
    (if \<not> truthy E (dict_get kvs ''member_id'')
     then ((ErrorBody ''member_id is required'' None, 400), sess, st)
     else
       (case bind E (dict_get kvs ''member_id'') of
          Inl e \<Rightarrow> (server_error, sess, st)
        | Inr mv \<Rightarrow>
            (case select_member E mv (members st) of
               None \<Rightarrow> ((ErrorBody ''Member not found'' None, 404), sess, st)
             | Some m \<Rightarrow>
                 (case (bind E (dict_get_default kvs ''sessions_attended'' (JInt 0)),
                        bind E (dict_get_default kvs ''assessments_submitted'' (JInt 0)),
                        bind E (dict_get_default kvs ''bonus_points'' (JInt 0))) of
                    (Inr s, Inr a, Inr b) \<Rightarrow>
                      (ok (MessageBody ''Weekly leaderboard updated''), sess,
                       log_action ''UPDATE_WEEKLY'' (''Updated weekly stats for '' @ m_name m) sess
                         (st\<lparr>weekly_leaderboard :=
                               upsert_stat (m_id m) (integer_affinity E s) (integer_affinity E a)
                                 (integer_affinity E b) k (weekly_leaderboard st)\<rparr>))
                  | _ \<Rightarrow> (server_error, sess, st)))))"
  using assms
  by (auto simp: update_weekly_leaderboard_def require_auth_pass
      update_weekly_leaderboard_body_def Let_def split: sum.splits option.splits)

lemma update_monthly_unfold:
  assumes "user_id sess \<noteq> None"
  shows "update_monthly_leaderboard E (JObj kvs) k sess st =
    (if \<not> truthy E (dict_get kvs ''member_id'')
     then ((ErrorBody ''member_id is required'' None, 400), sess, st)
     else
       (case bind E (dict_get kvs ''member_id'') of
          Inl e \<Rightarrow> (server_error, sess, st)
        | Inr mv \<Rightarrow>
            (case select_member E mv (members st) of
               None \<Rightarrow> ((ErrorBody ''Member not found'' None, 404), sess, st)
             | Some m \<Rightarrow>
                 (case (bind E (dict_get_default kvs ''sessions_attended'' (JInt 0)),
                        bind E (dict_get_default kvs ''assessments_submitted'' (JInt 0)),
                        bind E (dict_get_default kvs ''bonus_points'' (JInt 0))) of
                    (Inr s, Inr a, Inr b) \<Rightarrow>
                      (ok (MessageBody ''Monthly leaderboard updated''), sess,
                       log_action ''UPDATE_MONTHLY'' (''Updated monthly stats for '' @ m_name m) sess
                         (st\<lparr>monthly_leaderboard :=
                               upsert_stat (m_id m) (integer_affinity E s) (integer_affinity E a)
                                 (integer_affinity E b) k (monthly_leaderboard st)\<rparr>))
                  | _ \<Rightarrow> (server_error, sess, st)))))"
  using assms
  by (auto simp: update_monthly_leaderboard_def require_auth_pass
      update_monthly_leaderboard_body_def Let_def split: sum.splits option.splits)

text \<open>
  What both update routes do, stated once for the route \<open>upd\<close> and its table \<open>tbl\<close>.
\<close>

lemma update_route_facts:
  assumes auth: "user_id sess \<noteq> None"
      and which: "(upd, tbl) = (update_weekly_leaderboard E, weekly_leaderboard) \<or>
                  (upd, tbl) = (update_monthly_leaderboard E, monthly_leaderboard)"
  shows "\<not> truthy E (dict_get kvs ''member_id'') \<Longrightarrow>
           upd (JObj kvs) k sess st = ((ErrorBody ''member_id is required'' None, 400), sess, st)"
    and "snd (fst (upd (JObj kvs) k sess st)) = 400 \<Longrightarrow> \<not> truthy E (dict_get kvs ''member_id'')"
    and "truthy E (dict_get kvs ''member_id'') \<Longrightarrow> bind E (dict_get kvs ''member_id'') = Inr mv \<Longrightarrow>
         select_member E mv (members st) = None \<Longrightarrow>
           upd (JObj kvs) k sess st = ((ErrorBody ''Member not found'' None, 404), sess, st)"
    and "truthy E (dict_get kvs ''member_id'') \<Longrightarrow> bind E (dict_get kvs ''member_id'') = Inr mv \<Longrightarrow>
         select_member E mv (members st) = Some m \<Longrightarrow>
         bind E (dict_get_default kvs ''sessions_attended'' (JInt 0)) = Inr s \<Longrightarrow>
         bind E (dict_get_default kvs ''assessments_submitted'' (JInt 0)) = Inr a \<Longrightarrow>
         bind E (dict_get_default kvs ''bonus_points'' (JInt 0)) = Inr b \<Longrightarrow>
           snd (fst (upd (JObj kvs) k sess st)) = 200 \<and>
           fst (snd (upd (JObj kvs) k sess st)) = sess \<and>
           tbl (snd (snd (upd (JObj kvs) k sess st))) =
             upsert_stat (m_id m) (integer_affinity E s) (integer_affinity E a)
               (integer_affinity E b) k (tbl st) \<and>
           members (snd (snd (upd (JObj kvs) k sess st))) = members st"
    and "snd (fst (upd (JObj kvs) k sess st)) = 200 \<Longrightarrow>
         \<exists>mv m s a b. truthy E (dict_get kvs ''member_id'') \<and>
           bind E (dict_get kvs ''member_id'') = Inr mv \<and>
           select_member E mv (members st) = Some m \<and>
           bind E (dict_get_default kvs ''sessions_attended'' (JInt 0)) = Inr s \<and>
           bind E (dict_get_default kvs ''assessments_submitted'' (JInt 0)) = Inr a \<and>
           bind E (dict_get_default kvs ''bonus_points'' (JInt 0)) = Inr b"
proof -
  from which have u: "upd = update_weekly_leaderboard E \<and> tbl = weekly_leaderboard \<or>
                      upd = update_monthly_leaderboard E \<and> tbl = monthly_leaderboard" by auto
  note unf = update_weekly_unfold [OF auth] update_monthly_unfold [OF auth]
  show "\<not> truthy E (dict_get kvs ''member_id'') \<Longrightarrow>
           upd (JObj kvs) k sess st = ((ErrorBody ''member_id is required'' None, 400), sess, st)"
    using u by (auto simp: unf)
  show "snd (fst (upd (JObj kvs) k sess st)) = 400 \<Longrightarrow> \<not> truthy E (dict_get kvs ''member_id'')"
    using u by (auto simp: unf ok_def server_error_def split: sum.splits option.splits if_splits)
  show "truthy E (dict_get kvs ''member_id'') \<Longrightarrow> bind E (dict_get kvs ''member_id'') = Inr mv \<Longrightarrow>
         select_member E mv (members st) = None \<Longrightarrow>
           upd (JObj kvs) k sess st = ((ErrorBody ''Member not found'' None, 404), sess, st)"
    using u by (auto simp: unf)
  show "truthy E (dict_get kvs ''member_id'') \<Longrightarrow> bind E (dict_get kvs ''member_id'') = Inr mv \<Longrightarrow>
         select_member E mv (members st) = Some m \<Longrightarrow>
         bind E (dict_get_default kvs ''sessions_attended'' (JInt 0)) = Inr s \<Longrightarrow>
         bind E (dict_get_default kvs ''assessments_submitted'' (JInt 0)) = Inr a \<Longrightarrow>
         bind E (dict_get_default kvs ''bonus_points'' (JInt 0)) = Inr b \<Longrightarrow>
           snd (fst (upd (JObj kvs) k sess st)) = 200 \<and>
           fst (snd (upd (JObj kvs) k sess st)) = sess \<and>
           tbl (snd (snd (upd (JObj kvs) k sess st))) =
             upsert_stat (m_id m) (integer_affinity E s) (integer_affinity E a)
               (integer_affinity E b) k (tbl st) \<and>
           members (snd (snd (upd (JObj kvs) k sess st))) = members st"
    using u by (auto simp: unf ok_def log_action_def)
  show "snd (fst (upd (JObj kvs) k sess st)) = 200 \<Longrightarrow>
         \<exists>mv m s a b. truthy E (dict_get kvs ''member_id'') \<and>
           bind E (dict_get kvs ''member_id'') = Inr mv \<and>
           select_member E mv (members st) = Some m \<and>
           bind E (dict_get_default kvs ''sessions_attended'' (JInt 0)) = Inr s \<and>
           bind E (dict_get_default kvs ''assessments_submitted'' (JInt 0)) = Inr a \<and>
           bind E (dict_get_default kvs ''bonus_points'' (JInt 0)) = Inr b"
    using u by (auto simp: unf ok_def server_error_def split: sum.splits option.splits if_splits)
qed

lemma schema_ok_tbl:
  assumes "schema_ok st"
      and "(upd, tbl) = (update_weekly_leaderboard E, weekly_leaderboard) \<or>
           (upd, tbl) = (update_monthly_leaderboard E, monthly_leaderboard)"
  shows "distinct (map stat_key (tbl st))"
  using assms by (auto simp: schema_ok_def)

text \<open>
  C7 (as amended). For an authenticated caller and a JSON object as body, the weekly
  (resp. monthly) update route answers 400 exactly when \<open>member_id\<close> is absent or false
  in Python's sense (\<open>null\<close>, \<open>false\<close>, 0, an empty string, list or object); it answers 404
  "Member not found" when a \<open>member_id\<close> that SQLite can bind resolves to no member; and
  when it resolves to the member \<open>m\<close> and the three values can be bound, it answers 200
  and the table is the upsert of these values (as SQLite stores them, an absent field
  as 0) under the key of \<open>m\<close> and the period: with the key constraints met, exactly one
  row has that key afterwards, it holds these values, and all other rows are as before.
\<close>

theorem update_stat_outcomes:
  assumes "user_id sess \<noteq> None"
      and "(upd, tbl) = (update_weekly_leaderboard E, weekly_leaderboard) \<or>
           (upd, tbl) = (update_monthly_leaderboard E, monthly_leaderboard)"
  shows "(snd (fst (upd (JObj kvs) k sess st)) = 400 \<longleftrightarrow>
            \<not> truthy E (dict_get kvs ''member_id'')) \<and>
         (\<not> truthy E (dict_get kvs ''member_id'') \<longrightarrow>
            upd (JObj kvs) k sess st =
              ((ErrorBody ''member_id is required'' None, 400), sess, st)) \<and>
         (\<forall>mv. truthy E (dict_get kvs ''member_id'') \<and>
               bind E (dict_get kvs ''member_id'') = Inr mv \<and>
               select_member E mv (members st) = None \<longrightarrow>
            upd (JObj kvs) k sess st = ((ErrorBody ''Member not found'' None, 404), sess, st)) \<and>
         (\<forall>mv m s a b.
            truthy E (dict_get kvs ''member_id'') \<and>
            bind E (dict_get kvs ''member_id'') = Inr mv \<and>
            select_member E mv (members st) = Some m \<and>
            bind E (dict_get_default kvs ''sessions_attended'' (JInt 0)) = Inr s \<and>
            bind E (dict_get_default kvs ''assessments_submitted'' (JInt 0)) = Inr a \<and>
            bind E (dict_get_default kvs ''bonus_points'' (JInt 0)) = Inr b \<longrightarrow>
              snd (fst (upd (JObj kvs) k sess st)) = 200 \<and>
              tbl (snd (snd (upd (JObj kvs) k sess st))) =
                upsert_stat (m_id m) (integer_affinity E s) (integer_affinity E a)
                  (integer_affinity E b) k (tbl st) \<and>
              (schema_ok st \<longrightarrow>
                 filter (\<lambda>r. member_id r = m_id m \<and> period_key r = k)
                   (tbl (snd (snd (upd (JObj kvs) k sess st)))) =
                   [\<lparr>member_id = m_id m, sessions_attended = integer_affinity E s,
                     assessments_submitted = integer_affinity E a,
                     bonus_points = integer_affinity E b, period_key = k\<rparr>] \<and>
                 filter (\<lambda>r. \<not> (member_id r = m_id m \<and> period_key r = k))
                   (tbl (snd (snd (upd (JObj kvs) k sess st)))) =
                   filter (\<lambda>r. \<not> (member_id r = m_id m \<and> period_key r = k)) (tbl st)))"
proof (intro conjI allI impI)
  note f = update_route_facts [OF assms]
  show "snd (fst (upd (JObj kvs) k sess st)) = 400 \<longleftrightarrow> \<not> truthy E (dict_get kvs ''member_id'')"
    using f(1) [of kvs k st] f(2) [of kvs k st] by auto
  show "\<not> truthy E (dict_get kvs ''member_id'') \<Longrightarrow>
        upd (JObj kvs) k sess st = ((ErrorBody ''member_id is required'' None, 400), sess, st)"
    by (rule f(1))
  show "\<And>mv. truthy E (dict_get kvs ''member_id'') \<and>
               bind E (dict_get kvs ''member_id'') = Inr mv \<and>
               select_member E mv (members st) = None \<Longrightarrow>
            upd (JObj kvs) k sess st = ((ErrorBody ''Member not found'' None, 404), sess, st)"
    using f(3) by blast
next
  fix mv m s a b
  assume h: "truthy E (dict_get kvs ''member_id'') \<and>
            bind E (dict_get kvs ''member_id'') = Inr mv \<and>
            select_member E mv (members st) = Some m \<and>
            bind E (dict_get_default kvs ''sessions_attended'' (JInt 0)) = Inr s \<and>
            bind E (dict_get_default kvs ''assessments_submitted'' (JInt 0)) = Inr a \<and>
            bind E (dict_get_default kvs ''bonus_points'' (JInt 0)) = Inr b"
  note f4 = update_route_facts(4) [OF assms, of kvs mv st m s a b k]
  from h f4 show c1: "snd (fst (upd (JObj kvs) k sess st)) = 200" by blast
  from h f4 show c2: "tbl (snd (snd (upd (JObj kvs) k sess st))) =
                upsert_stat (m_id m) (integer_affinity E s) (integer_affinity E a)
                  (integer_affinity E b) k (tbl st)" by blast
  assume ok: "schema_ok st"
  note d = schema_ok_tbl [OF ok assms(2)]
  show "filter (\<lambda>r. member_id r = m_id m \<and> period_key r = k)
                   (tbl (snd (snd (upd (JObj kvs) k sess st)))) =
                   [\<lparr>member_id = m_id m, sessions_attended = integer_affinity E s,
                     assessments_submitted = integer_affinity E a,
                     bonus_points = integer_affinity E b, period_key = k\<rparr>]"
    unfolding c2 by (rule upsert_stat_row [OF d])
  show "filter (\<lambda>r. \<not> (member_id r = m_id m \<and> period_key r = k))
                   (tbl (snd (snd (upd (JObj kvs) k sess st)))) =
                   filter (\<lambda>r. \<not> (member_id r = m_id m \<and> period_key r = k)) (tbl st)"
    unfolding c2 by (rule upsert_stat_others)
qed

theorem update_stat_outcomes_witness:
  "fst (update_weekly_leaderboard sample_env (JObj [(''sessions_attended'', JInt 4)])
          ''2024-01-01'' admin_session sample_store) =
     (ErrorBody ''member_id is required'' None, 400) \<and>
   update_weekly_leaderboard sample_env (JObj [(''member_id'', JInt 9)])
          ''2024-01-01'' admin_session sample_store =
     ((ErrorBody ''Member not found'' None, 404), admin_session, sample_store) \<and>
   snd (fst (update_weekly_leaderboard sample_env
          (JObj [(''member_id'', JInt 3), (''sessions_attended'', JInt 4)])
          ''2024-01-01'' admin_session sample_store)) = 200 \<and>
   filter (\<lambda>r. member_id r = 3 \<and> period_key r = ''2024-01-01'')
     (weekly_leaderboard (snd (snd (update_weekly_leaderboard sample_env
          (JObj [(''member_id'', JInt 3), (''sessions_attended'', JInt 4)])
          ''2024-01-01'' admin_session sample_store)))) =
     [\<lparr>member_id = 3, sessions_attended = SInt 4, assessments_submitted = SInt 0,
       bonus_points = SInt 0, period_key = ''2024-01-01''\<rparr>]"
proof -
  let ?k = "''2024-01-01''"
  let ?carol = "\<lparr>m_id = 3, m_name = ''Carol'', m_avatar = None\<rparr>"
  have h: "user_id admin_session \<noteq> None" by (simp add: admin_session_def)
  have w: "(update_weekly_leaderboard sample_env, weekly_leaderboard) =
             (update_weekly_leaderboard sample_env, weekly_leaderboard) \<or>
           (update_weekly_leaderboard sample_env, weekly_leaderboard) =
             (update_monthly_leaderboard sample_env, monthly_leaderboard)"
    by (rule disjI1) (rule refl)
  note t = update_stat_outcomes [OF h w]
  have a: "\<not> truthy sample_env (dict_get [(''sessions_attended'', JInt 4)] ''member_id'')"
    by (simp add: dict_get_def)
  from t [of "[(''sessions_attended'', JInt 4)]" ?k sample_store, THEN conjunct2, THEN conjunct1,
      THEN mp, OF a]
  have c1: "fst (update_weekly_leaderboard sample_env (JObj [(''sessions_attended'', JInt 4)])
          ?k admin_session sample_store) = (ErrorBody ''member_id is required'' None, 400)"
    by simp
  have b: "truthy sample_env (dict_get [(''member_id'', JInt 9)] ''member_id'') \<and>
           bind sample_env (dict_get [(''member_id'', JInt 9)] ''member_id'') = Inr (SInt 9) \<and>
           select_member sample_env (SInt 9) (members sample_store) = None"
    by (simp add: dict_get_def in64_def select_member_def sample_store_def)
  from t [of "[(''member_id'', JInt 9)]" ?k sample_store, THEN conjunct2, THEN conjunct2,
      THEN conjunct1, THEN spec, THEN mp, OF b]
  have c2: "update_weekly_leaderboard sample_env (JObj [(''member_id'', JInt 9)])
          ?k admin_session sample_store =
     ((ErrorBody ''Member not found'' None, 404), admin_session, sample_store)" .
  let ?kvs = "[(''member_id'', JInt 3), (''sessions_attended'', JInt 4)]"
  have c: "truthy sample_env (dict_get ?kvs ''member_id'') \<and>
           bind sample_env (dict_get ?kvs ''member_id'') = Inr (SInt 3) \<and>
           select_member sample_env (SInt 3) (members sample_store) = Some ?carol \<and>
           bind sample_env (dict_get_default ?kvs ''sessions_attended'' (JInt 0)) = Inr (SInt 4) \<and>
           bind sample_env (dict_get_default ?kvs ''assessments_submitted'' (JInt 0)) = Inr (SInt 0) \<and>
           bind sample_env (dict_get_default ?kvs ''bonus_points'' (JInt 0)) = Inr (SInt 0)"
    by (simp add: dict_get_def dict_get_default_def in64_def select_member_def sample_store_def)
  have s: "schema_ok sample_store" by code_simp
  note t3 = t [of ?kvs ?k sample_store, THEN conjunct2, THEN conjunct2, THEN conjunct2,
      THEN spec, THEN spec, THEN spec, THEN spec, THEN spec, THEN mp, OF c]
  have c3: "snd (fst (update_weekly_leaderboard sample_env (JObj ?kvs) ?k admin_session
              sample_store)) = 200"
    by (rule t3 [THEN conjunct1])
  from t3 [THEN conjunct2, THEN conjunct2, THEN mp, OF s, THEN conjunct1]
  have c4: "filter (\<lambda>r. member_id r = 3 \<and> period_key r = ?k)
     (weekly_leaderboard (snd (snd (update_weekly_leaderboard sample_env (JObj ?kvs) ?k
        admin_session sample_store)))) =
     [\<lparr>member_id = 3, sessions_attended = SInt 4, assessments_submitted = SInt 0,
       bonus_points = SInt 0, period_key = ?k\<rparr>]"
    by simp
  from c1 c2 c3 c4 show ?thesis by (intro conjI)
qed

text \<open>
  The claim as stated fails: a call that supplies \<open>member_id = 0\<close>, which resolves to no
  member, is answered 400 "member_id is required" and not 404.
\<close>

theorem update_stat_outcomes_counterexample:
  "map_of [(''member_id'', JInt 0)] ''member_id'' = Some (JInt 0) \<and>
   select_member sample_env (SInt 0) (members sample_store) = None \<and>
   update_weekly_leaderboard sample_env (JObj [(''member_id'', JInt 0)])
     ''2024-01-01'' admin_session sample_store =
     ((ErrorBody ''member_id is required'' None, 400), admin_session, sample_store)"
  by code_simp



subsection \<open>Login\<close>






subsection \<open>Scores in a listing\<close>

lemma route_listing:
  assumes "(T, resp) = (weekly_leaderboard st, fst (get_weekly_leaderboard E k sess st)) \<or>
           (T, resp) = (monthly_leaderboard st, fst (get_monthly_leaderboard E k sess st))"
      and "resp = (LeaderboardBody ty k' es, 200)"
  shows "leaderboard_data E k (members st) T = Inr es"
  using assms
  by (auto simp: get_weekly_leaderboard_def get_monthly_leaderboard_def ok_def server_error_def
      split: sum.splits)

text \<open>
  C8 (as amended). In every store, whenever the weekly (resp. monthly) route produces
  a listing, the score of each entry is the value of \<open>calculate_points\<close> on the entry's
  three stat fields, none of the fields is null, an entry whose member has no stat row
  for the period has zero fields and score zero, and the score is a non-negative
  integer whenever the three fields are non-negative integers.
\<close>

theorem listing_score:
  assumes "(T, resp) = (weekly_leaderboard st, fst (get_weekly_leaderboard E k sess st)) \<or>
           (T, resp) = (monthly_leaderboard st, fst (get_monthly_leaderboard E k sess st))"
      and "resp = (LeaderboardBody ty k' es, 200)"
      and "e \<in> set es"
  shows "calculate_points_dyn E (sessionsAttended e) (assessmentsSubmitted e) (bonusPoints e) =
           Inr (totalPoints e) \<and>
         sessionsAttended e \<noteq> SNull \<and> assessmentsSubmitted e \<noteq> SNull \<and>
         bonusPoints e \<noteq> SNull \<and>
         (\<not> list_ex (\<lambda>r. member_id r = e_id e \<and> period_key r = k) T \<longrightarrow>
            sessionsAttended e = SInt 0 \<and> assessmentsSubmitted e = SInt 0 \<and>
            bonusPoints e = SInt 0 \<and> totalPoints e = SInt 0) \<and>
         (\<forall>s a b. sessionsAttended e = SInt s \<and> assessmentsSubmitted e = SInt a \<and>
            bonusPoints e = SInt b \<and> 0 \<le> s \<and> 0 \<le> a \<and> 0 \<le> b \<longrightarrow>
            totalPoints e = SInt (calculate_points s a b) \<and> 0 \<le> calculate_points s a b)"
proof -
  have data: "leaderboard_data E k (members st) T = Inr es"
    by (rule route_listing [OF assms(1,2)])
  from build_data_set [OF data [unfolded leaderboard_data_def]] assms(3)
  obtain r p where r: "r \<in> set (select_leaderboard E k (members st) T)"
    and p: "calculate_points_dyn E (sessionsAttended r) (assessmentsSubmitted r) (bonusPoints r) = Inr p"
    and e: "e = add_total r p" by blast
  from r have "r \<in> set (left_join k (members st) T)" by (simp add: set_select_leaderboard)
  then obtain m where m: "m \<in> set (members st)" and
    cases: "r = join_row m None \<or>
            (\<exists>w\<in>set T. member_id w = m_id m \<and> period_key w = k \<and> r = join_row m (Some w))"
    by (auto simp: set_left_join)
  have flds: "sessionsAttended e = sessionsAttended r" "assessmentsSubmitted e = assessmentsSubmitted r"
    "bonusPoints e = bonusPoints r" "totalPoints e = p" "e_id e = e_id r"
    using e by (simp_all add: add_total_def)
  have c1: "calculate_points_dyn E (sessionsAttended e) (assessmentsSubmitted e) (bonusPoints e) =
           Inr (totalPoints e)"
    using p by (simp add: flds)
  have nn: "\<And>v. coalesce v (SInt 0) \<noteq> SNull" by (case_tac v) simp_all
  from cases have c2: "sessionsAttended e \<noteq> SNull \<and> assessmentsSubmitted e \<noteq> SNull \<and>
         bonusPoints e \<noteq> SNull"
    by (auto simp: flds join_row_def nn)
  have c3: "\<not> list_ex (\<lambda>r. member_id r = e_id e \<and> period_key r = k) T \<longrightarrow>
            sessionsAttended e = SInt 0 \<and> assessmentsSubmitted e = SInt 0 \<and>
            bonusPoints e = SInt 0 \<and> totalPoints e = SInt 0"
  proof
    assume no: "\<not> list_ex (\<lambda>r. member_id r = e_id e \<and> period_key r = k) T"
    have id: "e_id e = m_id m" using cases by (auto simp: flds join_row_def)
    from no id have "\<not> (\<exists>w\<in>set T. member_id w = m_id m \<and> period_key w = k)"
      by (simp add: list_ex_iff)
    with cases have rn: "r = join_row m None" by blast
    then have z: "sessionsAttended r = SInt 0" "assessmentsSubmitted r = SInt 0"
      "bonusPoints r = SInt 0" by (simp_all add: join_row_def)
    with p have "p = SInt 0" by (simp add: calculate_points_dyn_int calculate_points_def)
    with z show "sessionsAttended e = SInt 0 \<and> assessmentsSubmitted e = SInt 0 \<and>
            bonusPoints e = SInt 0 \<and> totalPoints e = SInt 0" by (simp add: flds)
  qed
  have c4: "\<forall>s a b. sessionsAttended e = SInt s \<and> assessmentsSubmitted e = SInt a \<and>
            bonusPoints e = SInt b \<and> 0 \<le> s \<and> 0 \<le> a \<and> 0 \<le> b \<longrightarrow>
            totalPoints e = SInt (calculate_points s a b) \<and> 0 \<le> calculate_points s a b"
  proof (intro allI impI)
    fix s a b
    assume h: "sessionsAttended e = SInt s \<and> assessmentsSubmitted e = SInt a \<and>
            bonusPoints e = SInt b \<and> 0 \<le> s \<and> 0 \<le> a \<and> 0 \<le> b"
    with c1 have "totalPoints e = SInt (calculate_points s a b)"
      by (simp add: calculate_points_dyn_int)
    moreover from h have "0 \<le> calculate_points s a b" by (simp add: calculate_points_def)
    ultimately show "totalPoints e = SInt (calculate_points s a b) \<and> 0 \<le> calculate_points s a b"
      by simp
  qed
  from c1 c2 c3 c4 show ?thesis by blast
qed

theorem listing_score_witness:
  "totalPoints \<lparr>e_id = 2, e_name = ''Bob'', e_avatar = Some ''b.png'', sessionsAttended = SInt 3,
      assessmentsSubmitted = SInt 1, bonusPoints = SInt 5, totalPoints = SInt 55\<rparr> =
     SInt (calculate_points 3 1 5) \<and>
   (0::int) \<le> calculate_points 3 1 5"
proof -
  let ?bob = "\<lparr>e_id = 2, e_name = ''Bob'', e_avatar = Some ''b.png'', sessionsAttended = SInt 3,
      assessmentsSubmitted = SInt 1, bonusPoints = SInt 5, totalPoints = SInt 55\<rparr>"
  let ?es = "[?bob,
         \<lparr>e_id = 1, e_name = ''Alice'', e_avatar = None, sessionsAttended = SInt 1,
          assessmentsSubmitted = SInt 0, bonusPoints = SInt 2, totalPoints = SInt 12\<rparr>,
         \<lparr>e_id = 3, e_name = ''Carol'', e_avatar = None, sessionsAttended = SInt 0,
          assessmentsSubmitted = SInt 0, bonusPoints = SInt 0, totalPoints = SInt 0\<rparr>]"
  let ?resp = "fst (get_weekly_leaderboard sample_env ''2024-01-01'' empty_session sample_store)"
  have h1: "(weekly_leaderboard sample_store, ?resp) =
              (weekly_leaderboard sample_store,
               fst (get_weekly_leaderboard sample_env ''2024-01-01'' empty_session sample_store)) \<or>
            (weekly_leaderboard sample_store, ?resp) =
              (monthly_leaderboard sample_store,
               fst (get_monthly_leaderboard sample_env ''2024-01-01'' empty_session sample_store))"
    by (rule disjI1) (rule refl)
  have h2: "?resp = (LeaderboardBody ''weekly'' ''2024-01-01'' ?es, 200)" by code_simp
  have h3: "?bob \<in> set ?es" by simp
  have f: "sessionsAttended ?bob = SInt 3 \<and> assessmentsSubmitted ?bob = SInt 1 \<and>
            bonusPoints ?bob = SInt 5 \<and> (0::int) \<le> 3 \<and> (0::int) \<le> 1 \<and> (0::int) \<le> 5"
    by simp
  note t = listing_score [OF h1 h2 h3]
  from t [THEN conjunct2, THEN conjunct2, THEN conjunct2, THEN conjunct2, THEN conjunct2,
      THEN spec, THEN spec, THEN spec, THEN mp, OF f]
  show ?thesis .
qed

text \<open>
  The claim as stated fails in a reachable state: after the default admin has logged
  in, added Alice and set her weekly bonus to -5 (the update routes accept any
  integer), the weekly listing shows Alice with the score -5.
\<close>

theorem listing_score_counterexample:
  "fst (get_weekly_leaderboard sample_env ''2024-01-01'' empty_session
     (snd (run sample_env
        [Login (JObj [(''username'', JStr ''admin''), (''password'', JStr ''synapse2024'')]),
         AddMember (JObj [(''name'', JStr ''Alice''), (''avatar'', JStr ''a.png'')]),
         UpdateWeekly (JObj [(''member_id'', JInt 1), (''bonus_points'', JInt (- 5))])
           ''2024-01-01'']
        (boot sample_env)))) =
   (LeaderboardBody ''weekly'' ''2024-01-01''
      [\<lparr>e_id = 1, e_name = ''Alice'', e_avatar = Some ''a.png'', sessionsAttended = SInt 0,
        assessmentsSubmitted = SInt 0, bonusPoints = SInt (- 5), totalPoints = SInt (- 5)\<rparr>],
    200)"
  by code_simp

subsection \<open>The default avatar\<close>







subsection \<open>The key constraints hold in every state the service reaches\<close>

lemma fold_max_ge: "(x::int) \<in> set ids \<Longrightarrow> x \<le> fold max ids seq"
proof (induction ids arbitrary: seq)
  case Nil then show ?case by simp
next
  case (Cons i ids)
  have mono: "\<And>s. s \<le> fold max ids s"
  proof -
    fix s :: int show "s \<le> fold max ids s"
    proof (induction ids arbitrary: s)
      case Nil show ?case by simp
    next
      case (Cons j js)
      have "s \<le> max j s" by simp
      also have "\<dots> \<le> fold max js (max j s)" by (rule Cons.IH)
      finally show ?case by simp
    qed
  qed
  from Cons.prems have "x = i \<or> x \<in> set ids" by simp
  then show ?case
  proof
    assume "x = i"
    then have "x \<le> max i seq" by simp
    also have "\<dots> \<le> fold max ids (max i seq)" by (rule mono)
    finally show ?thesis by simp
  next
    assume "x \<in> set ids"
    from Cons.IH [OF this] show ?thesis by simp
  qed
qed

lemma next_rowid_fresh: "next_rowid seq ids \<notin> set ids"
proof
  assume "next_rowid seq ids \<in> set ids"
  from fold_max_ge [OF this, of seq] show False by (simp add: next_rowid_def)
qed

lemma schema_ok_log_action [simp]: "schema_ok (log_action a d s st) = schema_ok st"
  by (simp add: schema_ok_def log_action_def)

lemma schema_ok_boot: "schema_ok (snd (boot E))"
  by (simp add: boot_def init_db_def empty_db_def schema_ok_def Let_def)

lemma login_schema_ok: "schema_ok st \<Longrightarrow> schema_ok (snd (snd (login E data sess st)))"
  by (auto simp: login_def Let_def split: json.splits sum.splits option.splits)

lemma require_auth_schema_ok:
  assumes "\<And>s t. schema_ok t \<Longrightarrow> schema_ok (snd (snd (f s t)))"
  shows "schema_ok st \<Longrightarrow> schema_ok (snd (snd (require_auth f sess st)))"
  using assms by (simp add: require_auth_def)

lemma add_member_schema_ok:
  "schema_ok st \<Longrightarrow> schema_ok (snd (snd (add_member_body E data sess st)))"
proof -
  assume ok: "schema_ok st"
  have new: "\<And>name av. name \<notin> set (map m_name (members st)) \<Longrightarrow>
    schema_ok (st\<lparr>members := members st @
                 [\<lparr>m_id = next_rowid (members_seq st) (map m_id (members st)), m_name = name,
                   m_avatar = av\<rparr>],
               members_seq := next_rowid (members_seq st) (map m_id (members st))\<rparr>)"
    using ok next_rowid_fresh [of "members_seq st" "map m_id (members st)"]
    by (simp add: schema_ok_def)
  show ?thesis using ok new
    by (auto simp: add_member_body_def Let_def split: json.splits sum.splits)
qed

lemma update_weekly_schema_ok:
  "schema_ok st \<Longrightarrow> schema_ok (snd (snd (update_weekly_leaderboard_body E data k sess st)))"
proof -
  assume ok: "schema_ok st"
  have up: "\<And>i s a b. schema_ok (st\<lparr>weekly_leaderboard :=
      upsert_stat i s a b k (weekly_leaderboard st)\<rparr>)"
    using ok by (simp add: schema_ok_def upsert_stat_distinct)
  show ?thesis using ok up
    by (auto simp: update_weekly_leaderboard_body_def Let_def
        split: json.splits sum.splits option.splits)
qed

lemma update_monthly_schema_ok:
  "schema_ok st \<Longrightarrow> schema_ok (snd (snd (update_monthly_leaderboard_body E data k sess st)))"
proof -
  assume ok: "schema_ok st"
  have up: "\<And>i s a b. schema_ok (st\<lparr>monthly_leaderboard :=
      upsert_stat i s a b k (monthly_leaderboard st)\<rparr>)"
    using ok by (simp add: schema_ok_def upsert_stat_distinct)
  show ?thesis using ok up
    by (auto simp: update_monthly_leaderboard_body_def Let_def
        split: json.splits sum.splits option.splits)
qed

lemma delete_schema_ok:
  assumes "schema_ok st"
  shows "schema_ok (snd (snd (delete_member_body mid sess st)))"
    and "schema_ok (snd (snd (delete_weekly_entry_body mid k sess st)))"
    and "schema_ok (snd (snd (delete_monthly_entry_body mid k sess st)))"
  using assms
  by (auto simp: delete_member_body_def delete_weekly_entry_body_def
      delete_monthly_entry_body_def Let_def schema_ok_def log_action_def distinct_map_filter
      split: option.splits)

lemma handle_schema_ok:
  "schema_ok st \<Longrightarrow> schema_ok (snd (snd (handle E rq sess st)))"
proof (cases rq)
  case (Login data) then show "schema_ok st \<Longrightarrow> ?thesis" by (simp add: login_schema_ok)
next
  case Logout
  then show "schema_ok st \<Longrightarrow> ?thesis"
    by (simp add: logout_def require_auth_def logout_body_def Let_def)
next
  case AuthStatus then show "schema_ok st \<Longrightarrow> ?thesis" by (simp add: auth_status_def)
next
  case (GetWeekly k)
  then show "schema_ok st \<Longrightarrow> ?thesis"
    by (simp add: get_weekly_leaderboard_def split: sum.splits)
next
  case (GetMonthly k)
  then show "schema_ok st \<Longrightarrow> ?thesis"
    by (simp add: get_monthly_leaderboard_def split: sum.splits)
next
  case (AddMember data)
  then show "schema_ok st \<Longrightarrow> ?thesis"
    by (simp add: add_member_def require_auth_schema_ok add_member_schema_ok)
next
  case (UpdateWeekly data k)
  then show "schema_ok st \<Longrightarrow> ?thesis"
    by (simp add: update_weekly_leaderboard_def require_auth_schema_ok update_weekly_schema_ok)
next
  case (UpdateMonthly data k)
  then show "schema_ok st \<Longrightarrow> ?thesis"
    by (simp add: update_monthly_leaderboard_def require_auth_schema_ok update_monthly_schema_ok)
next
  case (DeleteMember mid)
  then show "schema_ok st \<Longrightarrow> ?thesis"
    by (simp add: delete_member_def require_auth_schema_ok delete_schema_ok)
next
  case (DeleteWeekly mid k)
  then show "schema_ok st \<Longrightarrow> ?thesis"
    by (simp add: delete_weekly_entry_def require_auth_schema_ok delete_schema_ok)
next
  case (DeleteMonthly mid k)
  then show "schema_ok st \<Longrightarrow> ?thesis"
    by (simp add: delete_monthly_entry_def require_auth_schema_ok delete_schema_ok)
qed

lemma run_schema_ok_from: "schema_ok (snd c) \<Longrightarrow> schema_ok (snd (run E rqs c))"
proof (induction rqs arbitrary: c)
  case Nil then show ?case by simp
next
  case (Cons rq rqs)
  have "schema_ok (snd (snd (handle E rq (fst c) (snd c))))"
    by (rule handle_schema_ok [OF Cons.prems])
  from Cons.IH [OF this] show ?case by simp
qed

text \<open>Every store the service reaches from its bootstrap meets the key constraints.\<close>

lemma run_schema_ok: "schema_ok (snd (run E rqs (boot E)))"
  by (rule run_schema_ok_from [OF schema_ok_boot])

end
